theory Spec2Isabelle
  imports Complex_Main "HOL-Library.Sublist"
begin

section \<open>Errors\<close>

text \<open>
  Every failure in the server is a JavaScript \<open>Error\<close> carrying a message; the code
  classifies errors only by inspecting that message (\<open>error.message.includes(...)\<close>).
  The one other value that can be thrown is \<open>undefined\<close>: \<open>retryWithBackoff\<close> throws
  its \<open>lastError\<close>, which is \<open>undefined\<close> when the loop body never ran.
\<close>

datatype error = Error (message: string) | Undefined

text \<open>
  Reading \<open>.message\<close> of a thrown \<open>undefined\<close> is itself a TypeError; its message is
  the engine's wording.
\<close>

definition TypeError_message :: string where
  "TypeError_message = ''Cannot read properties of undefined (reading 'message')''"

section \<open>Session store (storage.ts, schema.ts)\<close>

text \<open>
  \<open>Session\<close> is the row type of the \<open>sessions\<close> table: \<open>mode\<close> is a text column,
  \<open>aiResponse\<close>, \<open>active\<close>, \<open>transcriptionData\<close> and \<open>isLiveArgument\<close> are nullable.
  The jsonb blob is kept as its JSON text.
\<close>

type_synonym jsonb = string

record Session =
  id :: nat
  partner1Name :: string
  partner2Name :: string
  partner1Audio :: string
  partner2Audio :: string
  mode :: string
  aiResponse :: "string option"
  active :: "bool option"
  transcriptionData :: "jsonb option"
  isLiveArgument :: "bool option"

text \<open>
  \<open>InsertSession\<close>: the picked columns; \<open>isLiveArgument\<close> may be absent or null. The
  prefix \<open>ins_\<close> keeps its field names apart from those of \<open>Session\<close>.
\<close>

record InsertSession =
  ins_partner1Name :: string
  ins_partner2Name :: string
  ins_partner1Audio :: string
  ins_partner2Audio :: string
  ins_mode :: string
  ins_isLiveArgument :: "bool option"

text \<open>\<open>MemStorage\<close>: the private \<open>Map<number, Session>\<close> and the id counter.\<close>

record MemStorage =
  sessions :: "nat \<rightharpoonup> Session"
  currentId :: nat

definition MemStorage_new :: MemStorage where
  "MemStorage_new = \<lparr>sessions = Map.empty, currentId = 1\<rparr>"

definition createSession :: "InsertSession \<Rightarrow> MemStorage \<Rightarrow> Session \<times> MemStorage" where
  "createSession insertSession st =
     (let new_id = currentId st;
          session = \<lparr>id = new_id,
                     partner1Name = ins_partner1Name insertSession,
                     partner2Name = ins_partner2Name insertSession,
                     partner1Audio = ins_partner1Audio insertSession,
                     partner2Audio = ins_partner2Audio insertSession,
                     mode = ins_mode insertSession,
                     aiResponse = None,
                     active = Some True,
                     transcriptionData = None,
                     isLiveArgument = ins_isLiveArgument insertSession\<rparr>
      in (session, \<lparr>sessions = (sessions st)(new_id \<mapsto> session), currentId = currentId st + 1\<rparr>))"

definition getSession :: "nat \<Rightarrow> MemStorage \<Rightarrow> Session option" where
  "getSession i st = sessions st i"

definition updateSessionResponse ::
  "nat \<Rightarrow> string \<Rightarrow> MemStorage \<Rightarrow> (error + Session) \<times> MemStorage" where
  "updateSessionResponse i response st =
     (case sessions st i of
        None \<Rightarrow> (Inl (Error ''Session not found''), st)
      | Some session \<Rightarrow>
          (let updatedSession = session\<lparr>aiResponse := Some response\<rparr>
           in (Inr updatedSession, st\<lparr>sessions := (sessions st)(i \<mapsto> updatedSession)\<rparr>)))"

text \<open>A submission used to exercise the store at concrete inputs.\<close>

definition sample_insert :: InsertSession where
  "sample_insert = \<lparr>ins_partner1Name = ''Alice'', ins_partner2Name = ''Bob'',
                      ins_partner1Audio = ''UklGRg=='', ins_partner2Audio = ''UklGRg=='',
                      ins_mode = ''dinner'', ins_isLiveArgument = Some False\<rparr>"

section \<open>Strings\<close>

text \<open>\<open>String.prototype.includes\<close>: does \<open>sub\<close> occur in \<open>s\<close> as a contiguous run?\<close>

fun str_includes :: "string \<Rightarrow> string \<Rightarrow> bool" where
  "str_includes [] sub = (sub = [])"
| "str_includes (c # cs) sub = (prefix sub (c # cs) \<or> str_includes cs sub)"

text \<open>
  JavaScript truthiness of a \<open>string | null\<close>: \<open>null\<close> and the empty string are falsy.
\<close>

definition truthy :: "string option \<Rightarrow> bool" where
  "truthy t = (case t of None \<Rightarrow> False | Some s \<Rightarrow> s \<noteq> [])"

section \<open>Prompt builder (ai_new.ts)\<close>

datatype CounselingMode = counselor | evaluator | dinner | entertainment

definition SYSTEM_PROMPTS :: "CounselingMode \<Rightarrow> string" where
  \<open>SYSTEM_PROMPTS m = (case m of
     evaluator \<Rightarrow> ''You are a debate judge and arbiter that will listen to a relationship argument between two partners, then pick the winner based on who you think is right and wrong. You must always pick a clear winner. Your response should start with the name of the person who is right, and explain why that is the case. Be concise, keeping responses under 150 words.''
   | counselor \<Rightarrow> ''You are a relationship counselor that will listen to the perspective of the two speakers and think deeply to mediate and resolve any argument presented. You will help them find common ground and propose a resolution that ends their conflict. Be concise, keeping responses under 300 words.''
   | dinner \<Rightarrow> ''You are a decisive meal planning assistant for a picky couple that is hungry and indecisive about what they want to eat. You will analyze their preferences or discussion to recommend a specific genre of food along with a few recommended dishes. Start with a clear selection of what they should order, then justify the choice. Keep responses concise and under 100 words.''
   | entertainment \<Rightarrow> ''You are a decisive entertainment recommender. You will analyze the entertainment preferences or discussion points from two partners to recommend a specific show or movie. Start with a clear pick and justify it. Keep responses under 150 words.'')\<close>

record intro_text =
  live :: string
  separate :: string

definition INTRO_TEXT :: "CounselingMode \<Rightarrow> intro_text" where
  \<open>INTRO_TEXT m = (case m of
     evaluator \<Rightarrow> \<lparr>live = ''Based on the following argument discussion:'',
                    separate = ''Based on their perspectives on the issue:''\<rparr>
   | counselor \<Rightarrow> \<lparr>live = ''Based on the following argument discussion:'',
                    separate = ''Based on their perspectives on the issue:''\<rparr>
   | dinner \<Rightarrow> \<lparr>live = ''Based on the following discussion about what to eat:'',
                 separate = ''Based on their food preferences:''\<rparr>
   | entertainment \<Rightarrow> \<lparr>live = ''Based on the following discussion about entertainment:'',
                        separate = ''Based on their entertainment preferences:''\<rparr>)\<close>

text \<open>
  The \<open>switch (mode)\<close> of \<open>getUserPrompt\<close>: the required output section. In the
  functions below \<open>p1Name\<close>, \<open>p2Name\<close>, \<open>p1Text\<close>, \<open>p2Text\<close> and \<open>isLive\<close> stand for
  the source's \<open>partner1Name\<close>, \<open>partner2Name\<close>, \<open>partner1Text\<close> (or
  \<open>partner1Transcription\<close>), \<open>partner2Text\<close> (or \<open>partner2Transcription\<close>) and
  \<open>isLiveArgument\<close>, names taken by the fields of \<open>Session\<close>.
\<close>

definition format_section :: "CounselingMode \<Rightarrow> string" where
  \<open>format_section m = (case m of
     evaluator \<Rightarrow> ''\<newline>**FORMAT**:\<newline>- **WINNER**: [Name of the winner]\<newline>- **WHY**: 2-3 bullet points explaining why they are right''
   | counselor \<Rightarrow> ''\<newline>**FORMAT**:\<newline>- **KEY INSIGHTS**: 2-3 bullet points summarizing the conflict\<newline>- **RESOLUTION**: Specific advice to resolve the conflict''
   | dinner \<Rightarrow> ''\<newline>**FORMAT**:\<newline>- **VERDICT**: 'You should eat [specific recommendation]'\<newline>- **WHY**: 2-3 bullet points explaining the choice\<newline>- **ALTERNATIVES**: 1-2 backup options''
   | entertainment \<Rightarrow> ''\<newline>**FORMAT**:\<newline>- **VERDICT**: 'Watch [specific show/movie]'\<newline>- **WHY**: 2-3 bullet points justifying the pick\<newline>- **ALTERNATIVES**: 1-2 backup recommendations'')\<close>

definition getUserPrompt ::
  "CounselingMode \<Rightarrow> string \<Rightarrow> string \<Rightarrow> string \<Rightarrow> string option \<Rightarrow> bool \<Rightarrow> string" where
  "getUserPrompt m p1Name p2Name p1Text p2Text isLive =
     (let intro = (if isLive then live (INTRO_TEXT m) else separate (INTRO_TEXT m));
          partner2Statement =
            (if truthy p2Text
             then ''- '' @ p2Name @ '': '' @ the p2Text
             else ''- '' @ p2Name @ '': No input provided'');
          analysisText = ''- '' @ p1Name @ '': '' @ p1Text @ ''\<newline>'' @ partner2Statement;
          format = format_section m
      in intro @ ''\<newline>'' @ analysisText @ ''\<newline>'' @ format)"

section \<open>Earlier prompt construction inside createAnalysisStream\<close>

text \<open>
  Two earlier versions of the analysis module build the user prompt inline, in the local
  variable \<open>analysisPrompt\<close> of \<open>createAnalysisStream\<close>. \<open>or_else t d\<close> is the JavaScript
  \<open>t || d\<close> (and \<open>t ? t : d\<close>) on a \<open>string | null\<close>.
\<close>

definition or_else :: "string option \<Rightarrow> string \<Rightarrow> string" where
  "or_else t d = (if truthy t then the t else d)"

text \<open>The version whose prompts carry the \<open>**FORMAT**\<close> bullets.\<close>

definition analysisPrompt_bulleted ::
  "CounselingMode \<Rightarrow> string \<Rightarrow> string \<Rightarrow> string \<Rightarrow> string option \<Rightarrow> bool \<Rightarrow> string" where
  \<open>analysisPrompt_bulleted m p1Name p2Name p1Text p2Text isLive =
     (if m = dinner then
        (if isLive
         then ''Based on the following key points from '' @ p1Name @ '' and '' @ p2Name @
              '''s dinner discussion:\<newline>- '' @ p1Name @ '': '' @ p1Text @
              ''\<newline>- '' @ p2Name @ '': '' @ or_else p2Text ''No input provided'' @
              ''\<newline>\<newline>Provide a meal recommendation.\<newline>\<newline>**FORMAT**:\<newline>- **VERDICT**: 'You should eat [specific recommendation]'\<newline>- **WHY**: 2-3 bullet points explaining the choice\<newline>- **ALTERNATIVES**: 1-2 backup options''
         else ''Based on '' @ p1Name @ '' and '' @ p2Name @
              '''s separate food preferences:\<newline>- '' @ p1Name @ '': '' @ p1Text @
              ''\<newline>- '' @ p2Name @ '': '' @ or_else p2Text ''No preferences provided'' @
              ''\<newline>\<newline>Provide a meal recommendation.\<newline>\<newline>**FORMAT**:\<newline>- **VERDICT**: 'You should eat [specific recommendation]'\<newline>- **WHY**: 2-3 bullet points explaining the choice\<newline>- **ALTERNATIVES**: 1-2 backup options'')
      else if m = entertainment then
        (if isLive
         then ''Based on the following key points from '' @ p1Name @ '' and '' @ p2Name @
              '''s entertainment discussion:\<newline>- '' @ p1Name @ '': '' @ p1Text @
              ''\<newline>- '' @ p2Name @ '': '' @ or_else p2Text ''No input provided'' @
              ''\<newline>\<newline>Provide an entertainment recommendation.\<newline>\<newline>**FORMAT**:\<newline>- **VERDICT**: 'Watch [specific show/movie]'\<newline>- **WHY**: 2-3 bullet points justifying the pick\<newline>- **ALTERNATIVES**: 1-2 backup recommendations''
         else ''Based on '' @ p1Name @ '' and '' @ p2Name @
              '''s separate entertainment preferences:\<newline>- '' @ p1Name @ '': '' @ p1Text @
              ''\<newline>- '' @ p2Name @ '': '' @ or_else p2Text ''No preferences provided'' @
              ''\<newline>\<newline>Provide an entertainment recommendation.\<newline>\<newline>**FORMAT**:\<newline>- **VERDICT**: 'Watch [specific show/movie]'\<newline>- **WHY**: 2-3 bullet points justifying the pick\<newline>- **ALTERNATIVES**: 1-2 backup recommendations'')
      else if isLive then
        ''Analyze the following key points from a live argument between '' @ p1Name @ '' and '' @ p2Name @
        '':\<newline>- '' @ p1Name @ '': '' @ p1Text @
        ''\<newline>- '' @ p2Name @ '': '' @ or_else p2Text ''No input provided'' @
        ''\<newline>\<newline>Provide an analysis.\<newline>\<newline>**FORMAT**:\<newline>- **VERDICT**: One-sentence judgment\<newline>- **KEY POINTS**: 2-3 bullet points supporting the verdict\<newline>- **'' @
        (if m = counselor then ''ADVICE'' else ''WINNER'') @ ''**: '' @
        (if m = counselor then ''2 specific suggestions for better communication''
         else ''One clear sentence declaring the winner and why'')
      else
        ''Analyze the following perspectives from '' @ p1Name @ '' and '' @ p2Name @
        '':\<newline>- '' @ p1Name @ '': '' @ p1Text @
        ''\<newline>- '' @ p2Name @ '': '' @ or_else p2Text ''No perspective provided'' @
        ''\<newline>\<newline>Provide an analysis.\<newline>\<newline>**FORMAT**:\<newline>- **VERDICT**: One-sentence judgment\<newline>- **KEY POINTS**: 2-3 bullet points supporting the verdict\<newline>- **'' @
        (if m = counselor then ''ADVICE'' else ''WINNER'') @ ''**: '' @
        (if m = counselor then ''2 specific suggestions for better communication''
         else ''One clear sentence declaring the winner and why''))\<close>

text \<open>The oldest version: plain \<open>FORMAT:\<close> lines, partner2 as a continuation.\<close>

definition analysisPrompt_plain ::
  "CounselingMode \<Rightarrow> string \<Rightarrow> string \<Rightarrow> string \<Rightarrow> string option \<Rightarrow> bool \<Rightarrow> string" where
  \<open>analysisPrompt_plain m p1Name p2Name p1Text p2Text isLive =
     (if m = dinner then
        ''Based on '' @ p1Name @ '' and '' @ p2Name @ '''s '' @
        (if isLive then ''dinner discussion'' else ''separate food preferences'') @
        '':\<newline>\<newline>'' @ p1Text @ ''\<newline>'' @
        (if truthy p2Text
         then ''\<newline>Continued discussion: '' @ the p2Text else '''') @
        ''\<newline>\<newline>FORMAT:\<newline>VERDICT: Start with "You should eat [specific recommendation]"\<newline>WHY: 2-3 bullet points explaining why\<newline>ALTERNATIVES: 1-2 backup options''
      else if m = entertainment then
        ''Based on '' @ p1Name @ '' and '' @ p2Name @ '''s discussion:\<newline>\<newline>'' @
        p1Text @ ''\<newline>'' @
        (if truthy p2Text
         then ''\<newline>Continued discussion: '' @ the p2Text else '''') @
        ''\<newline>\<newline>FORMAT:\<newline>VERDICT: Start with "Watch [specific show/movie]"\<newline>WHY: 2-3 bullet points on why it's perfect\<newline>ALTERNATIVES: 1-2 backup recommendations''
      else if isLive then
        ''Analyze this live argument between '' @ p1Name @ '' and '' @ p2Name @
        '':\<newline>\<newline>'' @ p1Text @ ''\<newline>'' @
        (if truthy p2Text
         then ''\<newline>Continued argument: '' @ the p2Text else '''') @
        ''\<newline>\<newline>FORMAT:\<newline>VERDICT: Start with a clear one-sentence judgment\<newline>KEY POINTS: 2-3 bullet points supporting your verdict\<newline>'' @
        (if m = counselor then ''ADVICE: 2 specific suggestions for better communication''
         else ''WINNER: One clear sentence declaring the winner and why'')
      else
        ''Analyze these perspectives from '' @ p1Name @ '' and '' @ p2Name @
        '':\<newline>\<newline>'' @ p1Name @ '''s view: '' @ p1Text @
        ''\<newline>'' @ p2Name @ '''s view: '' @
        or_else p2Text ''No perspective provided'' @
        ''\<newline>\<newline>FORMAT:\<newline>VERDICT: Start with a clear one-sentence judgment\<newline>KEY POINTS: 2-3 bullet points supporting your verdict\<newline>'' @
        (if m = counselor then ''ADVICE: 2 specific suggestions for better communication''
         else ''WINNER: One clear sentence declaring the winner and why''))\<close>

section \<open>JSON serialisation\<close>

text \<open>
  \<open>JSON.stringify\<close> on strings (QuoteJSONString of ECMAScript): the two-character
  escapes, \<open>\u00XX\<close> for the other control characters, every other character as it is.
  Characters are single code units here.
\<close>

definition hex_digit :: "nat \<Rightarrow> char" where
  "hex_digit n = ''0123456789abcdef'' ! n"

definition JSON_escape :: "char \<Rightarrow> string" where
  "JSON_escape c =
     (if c = CHR 0x08 then [CHR 0x5C, CHR ''b'']
      else if c = CHR 0x09 then [CHR 0x5C, CHR ''t'']
      else if c = CHR 0x0A then [CHR 0x5C, CHR ''n'']
      else if c = CHR 0x0C then [CHR 0x5C, CHR ''f'']
      else if c = CHR 0x0D then [CHR 0x5C, CHR ''r'']
      else if c = CHR 0x22 then [CHR 0x5C, CHR 0x22]
      else if c = CHR 0x5C then [CHR 0x5C, CHR 0x5C]
      else if (of_char c :: nat) < 0x20
        then [CHR 0x5C, CHR ''u'', CHR ''0'', CHR ''0'',
              hex_digit (of_char c div 16), hex_digit (of_char c mod 16)]
      else [c])"

definition JSON_quote :: "string \<Rightarrow> string" where
  "JSON_quote s = [CHR 0x22] @ concat (map JSON_escape s) @ [CHR 0x22]"

text \<open>The result envelope \<open>{ verdict, timestamp }\<close> and its serialisation.\<close>

record AnalysisResult =
  verdict :: string
  timestamp :: string

definition JSON_stringify :: "AnalysisResult \<Rightarrow> string" where
  \<open>JSON_stringify r =
     ''{"verdict":'' @ JSON_quote (verdict r) @ '',"timestamp":'' @ JSON_quote (timestamp r) @ ''}''\<close>

section \<open>Analysis adapter (ai_new.ts)\<close>

text \<open>
  The text-generation endpoint is outside the program. \<open>streamText\<close> either throws or
  returns a stream; the stream yields finitely many text deltas and then either ends or
  throws. \<open>JSON_parse\<close> is \<open>JSON.parse\<close> followed by reading the \<open>text\<close> property of the
  transcription object; \<open>now\<close> is \<open>new Date().toISOString()\<close>.
\<close>

record CoreMessage =
  role :: string
  content :: string

record StreamTextRequest =
  model :: string
  messages :: "CoreMessage list"
  temperature :: rat
  maxTokens :: nat

datatype TextStream = TextStream (deltas: "string list") (failure: "error option")

record Transcription =
  "text" :: string

record AnalysisEnv =
  JSON_parse :: "string \<Rightarrow> error + Transcription"
  streamText :: "StreamTextRequest \<Rightarrow> error + TextStream"
  now :: string

text \<open>\<open>for await (const delta of result.textStream) fullResponse += delta\<close>.\<close>

fun accumulate :: "string \<Rightarrow> string list \<Rightarrow> string" where
  "accumulate fullResponse [] = fullResponse"
| "accumulate fullResponse (delta # rest) = accumulate (fullResponse @ delta) rest"

definition read_textStream :: "TextStream \<Rightarrow> error + string" where
  "read_textStream s =
     (case failure s of
        Some e \<Rightarrow> Inl e
      | None \<Rightarrow> Inr (accumulate '''' (deltas s)))"

text \<open>The request both functions send: model, the two messages, temperature, token cap.\<close>

definition analysis_request :: "CounselingMode \<Rightarrow> string \<Rightarrow> string \<Rightarrow> StreamTextRequest" where
  "analysis_request m systemPrompt userPrompt =
     \<lparr>model = ''gpt-4'',
      messages = [\<lparr>role = ''system'', content = systemPrompt\<rparr>,
                  \<lparr>role = ''user'', content = userPrompt\<rparr>],
      temperature = (if m = counselor then 7 / 10 else 3 / 10),
      maxTokens = 300\<rparr>"

text \<open>
  The \<open>catch (error)\<close> that closes both functions: whatever was thrown inside the
  \<open>try\<close> is logged and replaced by one generic error.
\<close>

definition analysis_failed :: error where
  "analysis_failed = Error ''Analysis failed. Please try again.''"

definition analyzeConflict ::
  "AnalysisEnv \<Rightarrow> string \<Rightarrow> string \<Rightarrow> CounselingMode \<Rightarrow> bool \<Rightarrow> string \<Rightarrow> string \<Rightarrow> error + string" where
  "analyzeConflict env p1Text p2Text m isLive p1Name p2Name =
     (case
        (case JSON_parse env p1Text of
           Inl e \<Rightarrow> Inl e
         | Inr partner1Data \<Rightarrow>
            (case (if p2Text \<noteq> [] then map_sum (\<lambda>e. e) Some (JSON_parse env p2Text) else Inr None) of
               Inl e \<Rightarrow> Inl e
             | Inr partner2Data \<Rightarrow>
                (let systemPrompt = SYSTEM_PROMPTS m;
                     userPrompt = getUserPrompt m p1Name p2Name (text partner1Data)
                       (case partner2Data of
                          None \<Rightarrow> None
                        | Some d \<Rightarrow> if text d \<noteq> [] then Some (text d) else None)
                       isLive
                 in case streamText env (analysis_request m systemPrompt userPrompt) of
                      Inl e \<Rightarrow> Inl e
                    | Inr result \<Rightarrow>
                       (case read_textStream result of
                          Inl e \<Rightarrow> Inl e
                        | Inr fullResponse \<Rightarrow>
                           if fullResponse = []
                           then Inl (Error ''Analysis failed - empty response from AI'')
                           else Inr (JSON_stringify
                                  \<lparr>verdict = fullResponse, timestamp = now env\<rparr>)))))
      of Inl error \<Rightarrow> Inl analysis_failed
       | Inr response \<Rightarrow> Inr response)"

text \<open>
  \<open>createAnalysisStream\<close> takes a completion callback. The callback acts on a state
  \<open>'s\<close> of the caller (the session store, in the server) and may throw.
\<close>

record 's AnalysisStreamOptions =
  opt_partner1Name :: string
  opt_partner2Name :: string
  opt_partner1Transcription :: string
  opt_partner2Transcription :: "string option"
  opt_mode :: CounselingMode
  opt_isLiveArgument :: bool
  opt_sessionId :: nat
  onComplete :: "string \<Rightarrow> 's \<Rightarrow> (error + unit) \<times> 's"

record AnalysisStreamResult =
  res_aiResponse :: string

definition createAnalysisStream ::
  "AnalysisEnv \<Rightarrow> 's AnalysisStreamOptions \<Rightarrow> 's \<Rightarrow> (error + AnalysisStreamResult) \<times> 's" where
  "createAnalysisStream env options s =
     (case
        (let systemPrompt = SYSTEM_PROMPTS (opt_mode options);
             userPrompt = getUserPrompt (opt_mode options)
               (opt_partner1Name options) (opt_partner2Name options)
               (opt_partner1Transcription options) (opt_partner2Transcription options)
               (opt_isLiveArgument options)
         in case streamText env (analysis_request (opt_mode options) systemPrompt userPrompt) of
              Inl e \<Rightarrow> (Inl e, s)
            | Inr result \<Rightarrow>
               (case read_textStream result of
                  Inl e \<Rightarrow> (Inl e, s)
                | Inr fullResponse \<Rightarrow>
                   (let finalResponse = JSON_stringify
                          \<lparr>verdict = fullResponse, timestamp = now env\<rparr>
                    in case onComplete options finalResponse s of
                         (Inl e, s') \<Rightarrow> (Inl e, s')
                       | (Inr u, s') \<Rightarrow> (Inr \<lparr>res_aiResponse = fullResponse\<rparr>, s'))))
      of (Inl error, s') \<Rightarrow> (Inl analysis_failed, s')
       | (Inr response, s') \<Rightarrow> (Inr response, s'))"

text \<open>
  Observation of a callback: \<open>recording cb\<close> behaves as \<open>cb\<close> and also appends every
  argument it is invoked with to a list of calls.
\<close>

definition recording ::
  "(string \<Rightarrow> 's \<Rightarrow> (error + unit) \<times> 's) \<Rightarrow> string \<Rightarrow> 's \<times> string list \<Rightarrow> (error + unit) \<times> ('s \<times> string list)" where
  "recording cb response = (\<lambda>(s, calls). case cb response s of (r, s') \<Rightarrow> (r, (s', calls @ [response])))"

text \<open>
  Concrete surroundings used to run the adapter: a fixed clock, a fixed stream, and
  \<open>JSON.parse\<close> on the strings of the examples. The two transcriptions, as
  \<open>transcribeAudio\<close> returns them, parse to their \<open>text\<close>; the other strings of the
  examples are plain sentences, on which \<open>JSON.parse\<close> throws (a \<open>SyntaxError\<close>, whose
  message the \<open>catch\<close> of \<open>analyzeConflict\<close> replaces).
\<close>

definition sample_parse :: "string \<Rightarrow> error + Transcription" where
  \<open>sample_parse s =
     (if s = ''{"text":"I like Italian food"}'' then Inr \<lparr>text = ''I like Italian food''\<rparr>
      else if s = ''{"text":"I prefer Thai food"}'' then Inr \<lparr>text = ''I prefer Thai food''\<rparr>
      else Inl (Error ''Unexpected token in JSON''))\<close>

definition fixed_env :: "string list \<Rightarrow> AnalysisEnv" where
  "fixed_env chunks =
     \<lparr>JSON_parse = sample_parse,
      streamText = (\<lambda>req. Inr (TextStream chunks None)),
      now = ''2025-01-01T00:00:00.000Z''\<rparr>"

definition sample_options ::
  "(string \<Rightarrow> 's \<Rightarrow> (error + unit) \<times> 's) \<Rightarrow> 's AnalysisStreamOptions" where
  "sample_options cb =
     \<lparr>opt_partner1Name = ''Alice'', opt_partner2Name = ''Bob'',
      opt_partner1Transcription = ''I like Italian food'',
      opt_partner2Transcription = Some ''I prefer Thai food'',
      opt_mode = dinner, opt_isLiveArgument = False, opt_sessionId = 1,
      onComplete = cb\<rparr>"

text \<open>The upstream outcome that \<open>createAnalysisStream\<close> receives for given options.\<close>

definition upstream :: "AnalysisEnv \<Rightarrow> 's AnalysisStreamOptions \<Rightarrow> error + TextStream" where
  "upstream env options =
     streamText env
       (analysis_request (opt_mode options) (SYSTEM_PROMPTS (opt_mode options))
          (getUserPrompt (opt_mode options)
             (opt_partner1Name options) (opt_partner2Name options)
             (opt_partner1Transcription options) (opt_partner2Transcription options)
             (opt_isLiveArgument options)))"

text \<open>Surroundings in which the text-generation call itself throws.\<close>

definition failing_env :: AnalysisEnv where
  "failing_env =
     \<lparr>JSON_parse = sample_parse,
      streamText = (\<lambda>req. Inl (Error ''Streaming error'')),
      now = ''2025-01-01T00:00:00.000Z''\<rparr>"

text \<open>Two callbacks on a caller without state: one that succeeds, one that throws.\<close>

definition accept :: "string \<Rightarrow> unit \<Rightarrow> (error + unit) \<times> unit" where
  "accept response s = (Inr (), s)"

definition reject :: "string \<Rightarrow> unit \<Rightarrow> (error + unit) \<times> unit" where
  "reject response s = (Inl (Error ''Session not found''), s)"

section \<open>Transcription adapter (transcribe.ts)\<close>

text \<open>
  What the adapter does to the outside is kept in a \<open>World\<close>: how often the upload
  operation ran, how many requests \<open>fetch\<close> issued, the delays slept (in ms, oldest first)
  and the \<open>fs.unlink\<close> calls made.
\<close>

datatype temp_file = TempFile | WavFile

record World =
  attempts :: nat
  requests :: nat
  sleeps :: "nat list"
  unlinked :: "temp_file list"

definition World_init :: World where
  "World_init = \<lparr>attempts = 0, requests = 0, sleeps = [], unlinked = []\<rparr>"

definition sleep :: "nat \<Rightarrow> World \<Rightarrow> World" where
  "sleep ms w = w\<lparr>sleeps := sleeps w @ [ms]\<rparr>"

text \<open>
  \<open>retryWithBackoff\<close>: the \<open>for\<close> loop with its counter \<open>i\<close> and \<open>lastError\<close>, which is
  \<open>undefined\<close> until an attempt has failed. Should the operation throw \<open>undefined\<close>,
  the test \<open>error.message?.includes(...)\<close> throws a TypeError from inside the \<open>catch\<close>.
\<close>

function retry_loop ::
  "(World \<Rightarrow> (error + 'a) \<times> World) \<Rightarrow> nat \<Rightarrow> nat \<Rightarrow> nat \<Rightarrow> error \<Rightarrow> World \<Rightarrow> (error + 'a) \<times> World" where
  "retry_loop operation maxRetries initialDelay i lastError w =
     (if i < maxRetries then
        (case operation w of
           (Inr v, w') \<Rightarrow> (Inr v, w')
         | (Inl error, w') \<Rightarrow>
            (case error of
               Undefined \<Rightarrow> (Inl (Error TypeError_message), w')
             | Error msg \<Rightarrow>
                 if str_includes msg ''insufficient_quota'' then (Inl error, w')
                 else retry_loop operation maxRetries initialDelay (i + 1) error
                        (sleep (initialDelay * 2 ^ i) w')))
      else (Inl lastError, w))"
  by pat_completeness auto
termination
  by (relation "measure (\<lambda>(operation, maxRetries, initialDelay, i, lastError, w). maxRetries - i)")
     auto

declare retry_loop.simps [simp del]

definition retryWithBackoff ::
  "(World \<Rightarrow> (error + 'a) \<times> World) \<Rightarrow> nat \<Rightarrow> nat \<Rightarrow> World \<Rightarrow> (error + 'a) \<times> World" where
  "retryWithBackoff operation maxRetries initialDelay w =
     retry_loop operation maxRetries initialDelay 0 Undefined w"

text \<open>
  The surroundings of one call of \<open>transcribeAudio\<close>. A rejected promise is given by
  the message of its error. \<open>ffprobe\<close> is the exec of the probe followed by
  \<open>parseFloat(stdout.trim())\<close>; \<open>readFile\<close> and \<open>fetch\<close> are indexed by the number of
  earlier attempts and requests.
\<close>

datatype js_number = NaN | Num rat | PlusInfinity | MinusInfinity

text \<open>\<open>x < c\<close> for a number \<open>x\<close> and a finite \<open>c\<close>; the literal \<open>0.1\<close> is a double.\<close>

fun js_less :: "js_number \<Rightarrow> rat \<Rightarrow> bool" where
  "js_less NaN c = False"
| "js_less (Num x) c = (x < c)"
| "js_less PlusInfinity c = False"
| "js_less MinusInfinity c = True"

definition double_0_1 :: rat where
  "double_0_1 = 3602879701896397 / 36028797018963968"

text \<open>
  The body of an error response: either \<open>JSON.parse(errorText)\<close> (or reading \<open>.error\<close>
  of its result) throws, or it yields \<open>errorJson.error?.type\<close> and
  \<open>errorJson.error?.message\<close>.
\<close>

datatype error_body = Unparseable string | ErrorJson "string option" "string option"

text \<open>
  A successful response body: \<open>result.text\<close>, and \<open>result.segments\<close> and
  \<open>result.words\<close> as their JSON text (\<open>None\<close> for \<open>undefined\<close>). The outcomes of one
  request: \<open>fetch\<close> (or reading the body of an error response) rejects; a response
  that is not ok, with its status, its text and the parse of that text; an ok response
  whose \<open>json()\<close> rejects; an ok response with its body.
\<close>

record WhisperResult =
  result_text :: "string option"
  result_segments :: "string option"
  result_words :: "string option"

datatype fetch_outcome =
    Fetch_rejects string
  | Response_not_ok nat string error_body
  | Response_ok_bad_json string
  | Response_ok WhisperResult

record TranscribeEnv =
  writeFile :: "string option"
  stat_size :: "string + nat"
  ffmpeg :: "string option"
  ffprobe :: "string + js_number"
  readFile :: "nat \<Rightarrow> string option"
  fetch :: "nat \<Rightarrow> fetch_outcome"

text \<open>Decimal rendering of \<open>response.status\<close> in a template literal.\<close>

fun string_of_nat :: "nat \<Rightarrow> string" where
  "string_of_nat n =
     (if n < 10 then [''0123456789'' ! n]
      else string_of_nat (n div 10) @ [''0123456789'' ! (n mod 10)])"

declare string_of_nat.simps [simp del]

text \<open>
  The error thrown for a response that is not ok: the inner \<open>try\<close> throws the quota
  error or the API error (or the parse fails), and the inner \<open>catch\<close> lets through only
  errors whose message contains "quota".
\<close>

definition api_error :: "nat \<Rightarrow> string \<Rightarrow> error_body \<Rightarrow> error" where
  "api_error status errorText body =
     (let e = (case body of
                 Unparseable msg \<Rightarrow> Error msg
               | ErrorJson error_type error_message \<Rightarrow>
                   if error_type = Some ''insufficient_quota''
                   then Error ''OpenAI API quota exceeded. Please check your billing status and ensure you have available credits.''
                   else Error (''OpenAI API error: '' @ or_else error_message errorText))
      in if str_includes (message e) ''quota'' then e
         else Error (''OpenAI API error: '' @ string_of_nat status @ '' '' @ errorText))"

definition stringify_transcription :: "string \<Rightarrow> string option \<Rightarrow> string option \<Rightarrow> string" where
  \<open>stringify_transcription t segments words =
     ''{"text":'' @ JSON_quote t @
     (case segments of None \<Rightarrow> [] | Some j \<Rightarrow> '',"segments":'' @ j) @
     (case words of None \<Rightarrow> [] | Some j \<Rightarrow> '',"words":'' @ j) @ ''}''\<close>

text \<open>The operation handed to \<open>retryWithBackoff\<close>: read the wav file, post it, read the answer.\<close>

definition upload :: "TranscribeEnv \<Rightarrow> World \<Rightarrow> (error + string) \<times> World" where
  "upload env w =
     (let w1 = w\<lparr>attempts := attempts w + 1\<rparr>
      in case readFile env (attempts w) of
           Some msg \<Rightarrow> (Inl (Error msg), w1)
         | None \<Rightarrow>
            (let w2 = w1\<lparr>requests := requests w1 + 1\<rparr>
             in case fetch env (requests w1) of
                  Fetch_rejects msg \<Rightarrow> (Inl (Error msg), w2)
                | Response_not_ok status errorText body \<Rightarrow>
                    (Inl (api_error status errorText body), w2)
                | Response_ok_bad_json msg \<Rightarrow> (Inl (Error msg), w2)
                | Response_ok result \<Rightarrow>
                    if \<not> truthy (result_text result)
                    then (Inl (Error ''No transcription received from API''), w2)
                    else (Inr (stringify_transcription (the (result_text result))
                                 (result_segments result) (result_words result)), w2)))"

text \<open>The unlinks of the \<open>catch\<close> block and of the \<open>finally\<close> block.\<close>

definition unlink_both :: "World \<Rightarrow> World" where
  "unlink_both w = w\<lparr>unlinked := unlinked w @ [TempFile, WavFile]\<rparr>"

definition transcribeAudio :: "TranscribeEnv \<Rightarrow> string \<Rightarrow> World \<Rightarrow> (error + string) \<times> World" where
  "transcribeAudio env audioBase64 w =
     (if audioBase64 = [] then (Inl (Error ''No audio data provided''), w)
      else
        (case
           (case writeFile env of
              Some msg \<Rightarrow> (Inl (Error msg), w)
            | None \<Rightarrow>
               (case stat_size env of
                  Inl msg \<Rightarrow> (Inl (Error msg), w)
                | Inr file_size \<Rightarrow>
                   if file_size = 0 then (Inl (Error ''Audio file is empty''), w)
                   else
                     (case ffmpeg env of
                        Some msg \<Rightarrow> (Inl (Error (''Failed to convert audio format: '' @ msg)), w)
                      | None \<Rightarrow>
                         (case (case ffprobe env of
                                  Inl msg \<Rightarrow> Some msg
                                | Inr duration \<Rightarrow>
                                    if js_less duration double_0_1
                                    then Some ''Audio recording is too short. Please record for at least 1-2 seconds.''
                                    else None) of
                            Some msg \<Rightarrow>
                              (Inl (Error (''Failed to verify audio duration: '' @ msg)), w)
                          | None \<Rightarrow> retryWithBackoff (upload env) 3 1000 w))))
         of (Inl error, w') \<Rightarrow> (Inl error, unlink_both (unlink_both w'))
          | (Inr transcription, w') \<Rightarrow> (Inr transcription, unlink_both w')))"

text \<open>
  Surroundings with a good two-second recording in which every request is answered
  with the same outcome.
\<close>

definition recording_env :: "js_number \<Rightarrow> fetch_outcome \<Rightarrow> TranscribeEnv" where
  "recording_env duration outcome =
     \<lparr>writeFile = None, stat_size = Inr 1024, ffmpeg = None, ffprobe = Inr duration,
      readFile = (\<lambda>k. None), fetch = (\<lambda>n. outcome)\<rparr>"

definition quota_response :: fetch_outcome where
  \<open>quota_response =
     Response_not_ok 429
       ''{"error":{"message":"You exceeded your current quota, please check your plan and billing details.","type":"insufficient_quota","param":null,"code":"insufficient_quota"}}''
       (ErrorJson (Some ''insufficient_quota'')
          (Some ''You exceeded your current quota, please check your plan and billing details.''))\<close>

definition overloaded_response :: fetch_outcome where
  \<open>overloaded_response =
     Response_not_ok 503 ''{"error":{"message":"The server is overloaded","type":"server_error"}}''
       (ErrorJson (Some ''server_error'') (Some ''The server is overloaded''))\<close>

section \<open>The store as the server uses it (storage.ts)\<close>

text \<open>
  The server has one \<open>MemStorage\<close>, the exported \<open>storage\<close>. To speak of the sequence of
  its operations, the calls made on it are written down next to it, oldest first: each
  of the three methods does what \<open>MemStorage\<close> does and notes the call. The id of a
  lookup comes from the path of a request; \<open>None\<close> stands for a number that is no key of
  the map.
\<close>

datatype store_call =
    CreateSession_call InsertSession
  | GetSession_call "nat option"
  | UpdateSessionResponse_call nat string

record Storage =
  contents :: MemStorage
  calls_made :: "store_call list"

definition Storage_new :: Storage where
  "Storage_new = \<lparr>contents = MemStorage_new, calls_made = []\<rparr>"

definition storage_createSession :: "InsertSession \<Rightarrow> Storage \<Rightarrow> Session \<times> Storage" where
  "storage_createSession insertSession s =
     (case createSession insertSession (contents s) of
        (created, st') \<Rightarrow>
          (created, \<lparr>contents = st',
                     calls_made = calls_made s @ [CreateSession_call insertSession]\<rparr>))"

definition storage_getSession :: "nat option \<Rightarrow> Storage \<Rightarrow> Session option \<times> Storage" where
  "storage_getSession i s =
     ((case i of None \<Rightarrow> None | Some n \<Rightarrow> getSession n (contents s)),
      \<lparr>contents = contents s, calls_made = calls_made s @ [GetSession_call i]\<rparr>)"

definition storage_updateSessionResponse ::
  "nat \<Rightarrow> string \<Rightarrow> Storage \<Rightarrow> (error + Session) \<times> Storage" where
  "storage_updateSessionResponse i response s =
     (case updateSessionResponse i response (contents s) of
        (r, st') \<Rightarrow>
          (r, \<lparr>contents = st',
               calls_made = calls_made s @ [UpdateSessionResponse_call i response]\<rparr>))"

text \<open>
  What a call does to a store, and the stores a sequence of calls goes through, one
  after each call.
\<close>

fun apply_call :: "store_call \<Rightarrow> MemStorage \<Rightarrow> MemStorage" where
  "apply_call (CreateSession_call insertSession) st = snd (createSession insertSession st)"
| "apply_call (GetSession_call i) st = st"
| "apply_call (UpdateSessionResponse_call i response) st
     = snd (updateSessionResponse i response st)"

fun states_of :: "store_call list \<Rightarrow> MemStorage \<Rightarrow> MemStorage list" where
  "states_of [] st = []"
| "states_of (c # cs) st = apply_call c st # states_of cs (apply_call c st)"

fun final_state :: "store_call list \<Rightarrow> MemStorage \<Rightarrow> MemStorage" where
  "final_state [] st = st"
| "final_state (c # cs) st = final_state cs (apply_call c st)"

text \<open>The \<open>aiResponse\<close> of session \<open>i\<close> in a store; \<open>None\<close> is null, or no such session.\<close>

definition response_of :: "MemStorage \<Rightarrow> nat \<Rightarrow> string option" where
  "response_of st i = (case sessions st i of None \<Rightarrow> None | Some s \<Rightarrow> aiResponse s)"

text \<open>The number of calls of \<open>updateSessionResponse\<close> on session \<open>i\<close> among some calls.\<close>

fun writes :: "nat \<Rightarrow> store_call list \<Rightarrow> nat" where
  "writes i [] = 0"
| "writes i (UpdateSessionResponse_call j response # cs)
     = (if j = i then 1 else 0) + writes i cs"
| "writes i (CreateSession_call insertSession # cs) = writes i cs"
| "writes i (GetSession_call j # cs) = writes i cs"

section \<open>Analysis adapter of the server\<close>

text \<open>
  The route imports \<open>createAnalysisStream\<close> from the module \<open>./ai\<close>. The versions of
  that function in the repository differ in the prompt they build and in whether building
  it can throw, and are the same from there on: inside one \<open>try\<close>, request the stream,
  accumulate it, serialise the envelope, await \<open>onComplete\<close>, return the text; the
  \<open>catch\<close> replaces any error. \<open>createAnalysisStream_from\<close> is that function given the
  outcome of its prompt construction.
\<close>

definition createAnalysisStream_from ::
  "AnalysisEnv \<Rightarrow> error + StreamTextRequest \<Rightarrow> (string \<Rightarrow> 's \<Rightarrow> (error + unit) \<times> 's) \<Rightarrow> 's
     \<Rightarrow> (error + AnalysisStreamResult) \<times> 's" where
  "createAnalysisStream_from env request callback s =
     (case
        (case request of
           Inl e \<Rightarrow> (Inl e, s)
         | Inr req \<Rightarrow>
            (case streamText env req of
               Inl e \<Rightarrow> (Inl e, s)
             | Inr result \<Rightarrow>
                (case read_textStream result of
                   Inl e \<Rightarrow> (Inl e, s)
                 | Inr fullResponse \<Rightarrow>
                    (let finalResponse = JSON_stringify
                           \<lparr>verdict = fullResponse, timestamp = now env\<rparr>
                     in case callback finalResponse s of
                          (Inl e, s') \<Rightarrow> (Inl e, s')
                        | (Inr u, s') \<Rightarrow> (Inr \<lparr>res_aiResponse = fullResponse\<rparr>, s')))))
      of (Inl error, s') \<Rightarrow> (Inl analysis_failed, s')
       | (Inr response, s') \<Rightarrow> (Inr response, s'))"

text \<open>
  The prompt construction of the earlier module (part_002): three system prompts, the
  bulleted user prompt, the temperature. It compares \<open>mode\<close> with \<open>"dinner"\<close>,
  \<open>"entertainment"\<close> and \<open>"counselor"\<close> only, so any other string takes the branches that
  \<open>"evaluator"\<close> takes, and nothing in it throws.
\<close>

definition SYSTEM_PROMPTS_general :: string where
  "SYSTEM_PROMPTS_general = ''You are a direct and decisive relationship analyst. You will analyze disagreements between two partners. Start with a clear verdict, then provide actionable communication advice. Keep responses under 150 words.''"

definition SYSTEM_PROMPTS_dinner :: string where
  "SYSTEM_PROMPTS_dinner = ''You are a decisive meal planning assistant. You will be provided with food preferences or discussion points from two partners. Recommend a specific meal, starting with a clear verdict, and justify it. Keep responses under 150 words.''"

definition SYSTEM_PROMPTS_entertainment :: string where
  "SYSTEM_PROMPTS_entertainment = ''You are a decisive entertainment recommender. You will be provided with entertainment preferences or discussion points from two partners. Recommend a specific show or movie, starting with a clear pick, and justify it. Keep responses under 150 words.''"

definition branch_of_mode :: "string \<Rightarrow> CounselingMode" where
  "branch_of_mode mode_name =
     (if mode_name = ''dinner'' then dinner
      else if mode_name = ''entertainment'' then entertainment
      else if mode_name = ''counselor'' then counselor
      else evaluator)"

definition bulleted_request ::
  "string \<Rightarrow> string \<Rightarrow> string \<Rightarrow> string option \<Rightarrow> string \<Rightarrow> bool \<Rightarrow> StreamTextRequest" where
  "bulleted_request p1Name p2Name p1Text p2Text mode_name isLive =
     \<lparr>model = ''gpt-4'',
      messages =
        [\<lparr>role = ''system'',
          content = (if mode_name = ''dinner'' then SYSTEM_PROMPTS_dinner
                     else if mode_name = ''entertainment'' then SYSTEM_PROMPTS_entertainment
                     else SYSTEM_PROMPTS_general)\<rparr>,
         \<lparr>role = ''user'',
          content = analysisPrompt_bulleted (branch_of_mode mode_name)
                      p1Name p2Name p1Text p2Text isLive\<rparr>],
      temperature = (if mode_name = ''counselor'' then 7 / 10 else 3 / 10),
      maxTokens = 300\<rparr>"

section \<open>HTTP surface (index.ts)\<close>

text \<open>
  The body of \<open>POST /api/sessions\<close>: the fields of a session submission and the
  subscriber's email. \<open>mode\<close> arrives as a string and is passed on as it is.
\<close>

record PostBody = InsertSession +
  email :: "string option"

text \<open>
  What surrounds one request: the development flag, the subscription check, the outcome
  of \<open>transcribeAudio\<close> on an audio payload, the prompt construction of the analysis
  module (from the two names, the two transcriptions, the mode string and the live flag:
  it throws or yields the request), and the text-generation endpoint.
\<close>

record ServerEnv =
  isDevelopment :: bool
  validateSubscription :: "string \<Rightarrow> error + bool"
  transcribe :: "string \<Rightarrow> error + string"
  prompts :: "string \<Rightarrow> string \<Rightarrow> string \<Rightarrow> string option \<Rightarrow> string \<Rightarrow> bool
                \<Rightarrow> error + StreamTextRequest"
  analysis :: AnalysisEnv

datatype response_body =
    Error_body string
  | Analysis_body string nat
  | Session_body Session
  | Other_body string

record Response =
  status :: nat
  body :: response_body

text \<open>\<open>error.message\<close> read in a \<open>catch\<close>; on a thrown \<open>undefined\<close> the read itself throws.\<close>

definition message_read :: "error \<Rightarrow> string" where
  "message_read e = (case e of Error msg \<Rightarrow> msg | Undefined \<Rightarrow> TypeError_message)"

text \<open>The \<open>catch\<close> of the inner \<open>try\<close> of the route.\<close>

definition processing_error :: "error \<Rightarrow> Response" where
  "processing_error e =
     \<lparr>status = 500,
      body = Error_body (if message_read e = [] then ''Failed to process audio''
                         else message_read e)\<rparr>"

text \<open>The callback the route passes as \<open>onComplete\<close>.\<close>

definition store_response :: "nat \<Rightarrow> string \<Rightarrow> Storage \<Rightarrow> (error + unit) \<times> Storage" where
  "store_response session_id response s =
     (case storage_updateSessionResponse session_id response s of
        (Inl e, s') \<Rightarrow> (Inl e, s')
      | (Inr updated, s') \<Rightarrow> (Inr (), s'))"

text \<open>
  \<open>POST /api/sessions\<close>. The handler is an async function: it runs without interruption
  from one \<open>await\<close> to the next, and other requests run while it awaits. It touches the
  store in two places, \<open>storage.createSession\<close> and, inside \<open>onComplete\<close>,
  \<open>storage.updateSessionResponse\<close>; each of the two methods runs to its end when called.
  Between the two the handler awaits the text stream. The handler is therefore written
  in two parts. \<open>begin_submission\<close> is the handler up to the session it has created: the
  subscription gate (skipped in development), the transcriptions, \<open>createSession\<close>; it
  ends with a response, or with what the rest of the handler uses. \<open>finish_submission\<close>
  is the rest: \<open>createAnalysisStream\<close> with its \<open>onComplete\<close>, and the response.
\<close>

record Awaiting =
  awaiting_env :: ServerEnv
  awaiting_data :: PostBody
  awaiting_partner1Transcription :: string
  awaiting_partner2Transcription :: "string option"
  awaiting_session :: Session

definition begin_submission ::
  "ServerEnv \<Rightarrow> PostBody \<Rightarrow> Storage \<Rightarrow> (Response + Awaiting) \<times> Storage" where
  "begin_submission env data s =
     (case (if isDevelopment env then Inr True
            else if \<not> truthy (email data) then Inr False
            else validateSubscription env (the (email data))) of
        Inl e \<Rightarrow> (Inl \<lparr>status = 500, body = Error_body (message_read e)\<rparr>, s)
      | Inr False \<Rightarrow> (Inl \<lparr>status = 402, body = Error_body ''Subscription required''\<rparr>, s)
      | Inr True \<Rightarrow>
         (case transcribe env (ins_partner1Audio data) of
            Inl e \<Rightarrow> (Inl (processing_error e), s)
          | Inr partner1Transcription \<Rightarrow>
             (case (if ins_isLiveArgument data \<noteq> Some True \<and> ins_partner2Audio data \<noteq> []
                    then map_sum (\<lambda>e. e) Some (transcribe env (ins_partner2Audio data))
                    else Inr None) of
                Inl e \<Rightarrow> (Inl (processing_error e), s)
              | Inr partner2Transcription \<Rightarrow>
                 (case storage_createSession (InsertSession.truncate data) s of
                    (created, s1) \<Rightarrow>
                      (Inr \<lparr>awaiting_env = env, awaiting_data = data,
                            awaiting_partner1Transcription = partner1Transcription,
                            awaiting_partner2Transcription = partner2Transcription,
                            awaiting_session = created\<rparr>, s1)))))"

definition finish_submission :: "Awaiting \<Rightarrow> Storage \<Rightarrow> Response \<times> Storage" where
  "finish_submission a s =
     (case createAnalysisStream_from (analysis (awaiting_env a))
             (prompts (awaiting_env a)
                (ins_partner1Name (awaiting_data a)) (ins_partner2Name (awaiting_data a))
                (awaiting_partner1Transcription a) (awaiting_partner2Transcription a)
                (ins_mode (awaiting_data a))
                (ins_isLiveArgument (awaiting_data a) = Some True))
             (store_response (id (awaiting_session a))) s of
        (Inl e, s') \<Rightarrow> (processing_error e, s')
      | (Inr result, s') \<Rightarrow>
          (\<lparr>status = 200,
            body = Analysis_body (res_aiResponse result) (id (awaiting_session a))\<rparr>, s'))"

text \<open>The handler when nothing else runs in between.\<close>

definition post_sessions :: "ServerEnv \<Rightarrow> PostBody \<Rightarrow> Storage \<Rightarrow> Response \<times> Storage" where
  "post_sessions env data s =
     (case begin_submission env data s of
        (Inl response, s') \<Rightarrow> (response, s')
      | (Inr a, s') \<Rightarrow> finish_submission a s')"

text \<open>
  \<open>GET /api/sessions/:id\<close>. The id is \<open>Number(...)\<close> of the last path segment; \<open>None\<close>
  stands for a value that is not a natural number and so is no key of the map.
\<close>

definition get_session :: "nat option \<Rightarrow> Storage \<Rightarrow> Response \<times> Storage" where
  "get_session i s =
     (case storage_getSession i s of
        (None, s') \<Rightarrow> (\<lparr>status = 404, body = Error_body ''Session not found''\<rparr>, s')
      | (Some found, s') \<Rightarrow> (\<lparr>status = 200, body = Session_body found\<rparr>, s'))"

section \<open>The server over time\<close>

text \<open>
  The server is the store, the submissions that have created their session and await
  their analysis (by order of arrival, counted from 0), the number of submissions that
  have arrived, and the responses sent. What happens to it, one thing at a time:
  \<^item> \<open>Arrives\<close>: the handler of a submission reaches \<open>createSession\<close>, or answers before
    it does (what precedes \<open>createSession\<close> in the handler does not touch the store, so
    when it ran is of no account);
  \<^item> \<open>Resumes\<close>: the analysis of an awaiting submission comes to its end and the rest
    of that handler runs;
  \<^item> \<open>Fetches\<close>: a session is fetched;
  \<^item> \<open>Other_route\<close>: another route answers (preflight, status, checkout, not found:
    none touches the store).

  An awaiting submission is resumed once, as an \<open>await\<close> is; resuming a submission that
  is not awaiting is nothing. A submission whose stream never ends stays awaiting. Any
  list of events is a possible course of the server.
\<close>

record Server =
  srv_storage :: Storage
  srv_awaiting :: "nat \<rightharpoonup> Awaiting"
  srv_arrived :: nat
  srv_responses :: "Response list"

definition Server_new :: Server where
  "Server_new = \<lparr>srv_storage = Storage_new, srv_awaiting = Map.empty, srv_arrived = 0,
                  srv_responses = []\<rparr>"

datatype event =
    Arrives ServerEnv PostBody
  | Resumes nat
  | Fetches "nat option"
  | Other_route Response

fun react :: "event \<Rightarrow> Server \<Rightarrow> Server" where
  "react (Arrives env data) sv =
     (case begin_submission env data (srv_storage sv) of
        (Inl response, s') \<Rightarrow>
          \<lparr>srv_storage = s', srv_awaiting = srv_awaiting sv,
           srv_arrived = srv_arrived sv + 1,
           srv_responses = srv_responses sv @ [response]\<rparr>
      | (Inr a, s') \<Rightarrow>
          \<lparr>srv_storage = s', srv_awaiting = (srv_awaiting sv)(srv_arrived sv \<mapsto> a),
           srv_arrived = srv_arrived sv + 1,
           srv_responses = srv_responses sv\<rparr>)"
| "react (Resumes n) sv =
     (case srv_awaiting sv n of
        None \<Rightarrow> sv
      | Some a \<Rightarrow>
         (case finish_submission a (srv_storage sv) of
            (response, s') \<Rightarrow>
              \<lparr>srv_storage = s', srv_awaiting = (srv_awaiting sv)(n := None),
               srv_arrived = srv_arrived sv,
               srv_responses = srv_responses sv @ [response]\<rparr>))"
| "react (Fetches i) sv =
     (case get_session i (srv_storage sv) of
        (response, s') \<Rightarrow>
          \<lparr>srv_storage = s', srv_awaiting = srv_awaiting sv,
           srv_arrived = srv_arrived sv,
           srv_responses = srv_responses sv @ [response]\<rparr>)"
| "react (Other_route response) sv = sv\<lparr>srv_responses := srv_responses sv @ [response]\<rparr>"

fun run :: "event list \<Rightarrow> Server \<Rightarrow> Server" where
  "run [] sv = sv"
| "run (e # es) sv = run es (react e sv)"

text \<open>
  A production request of a subscriber whose two recordings transcribe, served by the
  earlier analysis module.
\<close>

definition sample_server :: "string list \<Rightarrow> ServerEnv" where
  \<open>sample_server chunks =
     \<lparr>isDevelopment = False,
      validateSubscription = (\<lambda>e. Inr True),
      transcribe = (\<lambda>audio. Inr ''{"text":"I like Italian food"}''),
      prompts = (\<lambda>p1Name p2Name p1Text p2Text mode_name isLive.
                   Inr (bulleted_request p1Name p2Name p1Text p2Text mode_name isLive)),
      analysis = fixed_env chunks\<rparr>\<close>

definition sample_body :: PostBody where
  "sample_body = \<lparr>ins_partner1Name = ''Alice'', ins_partner2Name = ''Bob'',
                   ins_partner1Audio = ''UklGRg=='', ins_partner2Audio = ''UklGRg=='',
                   ins_mode = ''dinner'', ins_isLiveArgument = Some False,
                   email = Some ''alice@example.com''\<rparr>"

text \<open>
  Two such submissions arrive one after the other; the analysis of the second ends
  first, its session is fetched, the analysis of the first ends.
\<close>

definition sample_events :: "event list" where
  "sample_events =
     [Arrives (sample_server [''Thai'']) sample_body,
      Arrives (sample_server [''Pizza'']) sample_body,
      Resumes 1, Fetches (Some 2), Resumes 0, Resumes 1]"

text \<open>Store invariant: every stored id is below the id counter.\<close>

definition ids_below :: "MemStorage \<Rightarrow> bool" where
  "ids_below st = (\<forall>i. sessions st i \<noteq> None \<longrightarrow> i < currentId st)"

text \<open>
  One store keeps the responses of another: every response set in the first is set, to
  the same value, in the second.
\<close>

definition keeps :: "MemStorage \<Rightarrow> MemStorage \<Rightarrow> bool" where
  "keeps st st' = (\<forall>i v. response_of st i = Some v \<longrightarrow> response_of st' i = Some v)"

text \<open>
  Invariant of the server, in terms of its store, the calls noted and the awaiting
  submissions: the store is what the calls make of an empty store; ids are below the
  counter; the session of an awaiting submission is stored, has no response and has never
  been written; two awaiting submissions have different sessions; no session has been
  written twice, and none at or above the counter at all; each store on the way keeps the
  responses of the ones before it, and the present store those of all of them.
\<close>

definition consistent :: "MemStorage \<Rightarrow> store_call list \<Rightarrow> (nat \<rightharpoonup> Awaiting) \<Rightarrow> bool" where
  "consistent st cs aw =
     (st = final_state cs MemStorage_new \<and>
      ids_below st \<and>
      (\<forall>n a. aw n = Some a \<longrightarrow>
         (\<exists>s. sessions st (id (awaiting_session a)) = Some s \<and> aiResponse s = None) \<and>
         writes (id (awaiting_session a)) cs = 0) \<and>
      (\<forall>n n' a a'. aw n = Some a \<and> aw n' = Some a' \<and> n \<noteq> n'
         \<longrightarrow> id (awaiting_session a) \<noteq> id (awaiting_session a')) \<and>
      (\<forall>i. writes i cs \<le> 1) \<and>
      (\<forall>i. currentId st \<le> i \<longrightarrow> writes i cs = 0) \<and>
      sorted_wrt keeps (states_of cs MemStorage_new) \<and>
      (\<forall>x \<in> set (states_of cs MemStorage_new). keeps x st))"

definition consistent_server :: "Server \<Rightarrow> bool" where
  "consistent_server sv =
     consistent (contents (srv_storage sv)) (calls_made (srv_storage sv)) (srv_awaiting sv)"



section \<open>Session store: properties\<close>

text \<open>
  C7. \<open>updateSessionResponse\<close> on an id that is absent from the store fails with the
  error "Session not found" and leaves the store as it was; on a present id it succeeds
  and \<open>getSession\<close> of that id afterwards returns a session whose \<open>aiResponse\<close> is exactly
  the text passed in.
\<close>

theorem updateSessionResponse_spec:
  "(getSession i st = None \<longrightarrow>
      updateSessionResponse i response st = (Inl (Error ''Session not found''), st)) \<and>
   (getSession i st \<noteq> None \<longrightarrow>
      (\<exists>s. fst (updateSessionResponse i response st) = Inr s \<and>
           getSession i (snd (updateSessionResponse i response st)) = Some s \<and>
           aiResponse s = Some response))"
  by (auto simp: updateSessionResponse_def getSession_def Let_def split: option.splits)

theorem updateSessionResponse_spec_witness:
  "getSession 7 MemStorage_new = None \<and>
   updateSessionResponse 7 ''late'' MemStorage_new
     = (Inl (Error ''Session not found''), MemStorage_new) \<and>
   getSession 1 (snd (createSession sample_insert MemStorage_new)) \<noteq> None \<and>
   (\<exists>s. fst (updateSessionResponse 1 ''done'' (snd (createSession sample_insert MemStorage_new))) = Inr s \<and>
        getSession 1 (snd (updateSessionResponse 1 ''done'' (snd (createSession sample_insert MemStorage_new))))
          = Some s \<and>
        aiResponse s = Some ''done'')"
proof -
  have a: "getSession 7 MemStorage_new = None"
    by (simp add: getSession_def MemStorage_new_def)
  have b: "getSession 1 (snd (createSession sample_insert MemStorage_new)) \<noteq> None"
    by (simp add: getSession_def createSession_def MemStorage_new_def Let_def)
  from a b
    updateSessionResponse_spec [of 7 MemStorage_new "''late''"]
    updateSessionResponse_spec [of 1 "snd (createSession sample_insert MemStorage_new)" "''done''"]
  show ?thesis by blast
qed

text \<open>
  C10. For an id present in the store, \<open>updateSessionResponse\<close> changes only the
  \<open>aiResponse\<close> field of that session: its nine other fields keep their values, every
  other session of the store is untouched, and so is the id counter.
\<close>

theorem updateSessionResponse_frame:
  assumes "getSession i st = Some old"
  shows "\<exists>new. getSession i (snd (updateSessionResponse i response st)) = Some new \<and>
           id new = id old \<and>
           partner1Name new = partner1Name old \<and>
           partner2Name new = partner2Name old \<and>
           partner1Audio new = partner1Audio old \<and>
           partner2Audio new = partner2Audio old \<and>
           mode new = mode old \<and>
           active new = active old \<and>
           transcriptionData new = transcriptionData old \<and>
           isLiveArgument new = isLiveArgument old \<and>
           (\<forall>j. j \<noteq> i \<longrightarrow>
              getSession j (snd (updateSessionResponse i response st)) = getSession j st) \<and>
           currentId (snd (updateSessionResponse i response st)) = currentId st"
  using assms
  by (simp add: updateSessionResponse_def getSession_def Let_def)

theorem updateSessionResponse_frame_witness:
  "\<exists>new. getSession 1 (snd (updateSessionResponse 1 ''done'' (snd (createSession sample_insert MemStorage_new))))
            = Some new \<and>
         id new = 1 \<and>
         partner1Name new = ''Alice'' \<and>
         mode new = ''dinner'' \<and>
         active new = Some True \<and>
         (\<forall>j. j \<noteq> 1 \<longrightarrow>
            getSession j (snd (updateSessionResponse 1 ''done'' (snd (createSession sample_insert MemStorage_new))))
              = getSession j (snd (createSession sample_insert MemStorage_new)))"
proof -
  have h: "getSession 1 (snd (createSession sample_insert MemStorage_new))
             = Some (fst (createSession sample_insert MemStorage_new))"
    by (simp add: getSession_def createSession_def MemStorage_new_def Let_def)
  from updateSessionResponse_frame [OF h, of "''done''"]
  show ?thesis
    by (auto simp: createSession_def MemStorage_new_def sample_insert_def Let_def)
qed

section \<open>Strings: properties\<close>

text \<open>\<open>str_includes\<close> is occurrence as a contiguous run.\<close>

lemma str_includes_iff: "str_includes s sub \<longleftrightarrow> (\<exists>p q. s = p @ sub @ q)"
proof (induction s)
  case Nil
  then show ?case by auto
next
  case (Cons c cs)
  show ?case
  proof
    assume "str_includes (c # cs) sub"
    then consider "prefix sub (c # cs)" | "str_includes cs sub" by auto
    then show "\<exists>p q. c # cs = p @ sub @ q"
    proof cases
      case 1
      then obtain q where "c # cs = sub @ q" by (auto simp: prefix_def)
      then have "c # cs = [] @ sub @ q" by simp
      then show ?thesis by blast
    next
      case 2
      with Cons.IH obtain p q where "cs = p @ sub @ q" by blast
      then have "c # cs = (c # p) @ sub @ q" by simp
      then show ?thesis by blast
    qed
  next
    assume "\<exists>p q. c # cs = p @ sub @ q"
    then obtain p q where pq: "c # cs = p @ sub @ q" by blast
    show "str_includes (c # cs) sub"
    proof (cases p)
      case Nil
      with pq have "prefix sub (c # cs)" by (simp add: prefix_def)
      then show ?thesis by simp
    next
      case (Cons a p')
      with pq have "cs = p' @ sub @ q" by simp
      with Cons.IH have "str_includes cs sub" by blast
      then show ?thesis by simp
    qed
  qed
qed

lemma str_includesI: "s = p @ sub @ q \<Longrightarrow> str_includes s sub"
  by (auto simp: str_includes_iff)

lemma str_includes_append_right: "str_includes b sub \<Longrightarrow> str_includes (a @ b) sub"
  by (metis append.assoc str_includes_iff)

lemma str_includes_append_left: "str_includes a sub \<Longrightarrow> str_includes (a @ b) sub"
  by (metis append.assoc str_includes_iff)

lemma str_includes_same [simp]: "str_includes (sub @ q) sub"
  by (rule str_includesI [where p = "[]"]) simp

section \<open>Prompt builder: properties\<close>

lemma getUserPrompt_placeholder:
  assumes "\<not> truthy p2Text"
  shows "str_includes (getUserPrompt m n1 n2 t1 p2Text isLive)
           (''\<newline>- '' @ n2 @ '': No input provided\<newline>'')"
proof -
  let ?intro = "if isLive then live (INTRO_TEXT m) else separate (INTRO_TEXT m)"
  have "getUserPrompt m n1 n2 t1 p2Text isLive
          = (?intro @ ''\<newline>- '' @ n1 @ '': '' @ t1)
            @ (''\<newline>- '' @ n2 @ '': No input provided\<newline>'') @ format_section m"
    using assms by (simp add: getUserPrompt_def Let_def)
  then show ?thesis by (rule str_includesI)
qed

lemma analysisPrompt_bulleted_placeholder:
  assumes "\<not> truthy p2Text"
  shows "str_includes (analysisPrompt_bulleted m n1 n2 t1 p2Text isLive)
           (''\<newline>- '' @ n2 @ '': '' @
            (if isLive then ''No input provided''
             else if m = dinner \<or> m = entertainment then ''No preferences provided''
             else ''No perspective provided'') @ ''\<newline>'')"
  using assms
  by (cases m; cases isLive)
     (simp_all add: analysisPrompt_bulleted_def or_else_def str_includes_append_right)

lemma analysisPrompt_plain_placeholder:
  assumes "\<not> truthy p2Text" "m \<noteq> dinner" "m \<noteq> entertainment" "\<not> isLive"
  shows "str_includes (analysisPrompt_plain m n1 n2 t1 p2Text isLive)
           (''\<newline>'' @ n2 @ '''s view: No perspective provided\<newline>'')"
  using assms
  by (cases m)
     (simp_all add: analysisPrompt_plain_def or_else_def str_includes_append_right)

lemma analysisPrompt_plain_live:
  assumes "\<not> truthy p2Text"
  shows "str_includes (analysisPrompt_plain m n1 n2 t1 p2Text True)
           ('':\<newline>\<newline>'' @ t1 @ ''\<newline>\<newline>\<newline>FORMAT:\<newline>'')"
  using assms
  by (cases m)
     (simp_all add: analysisPrompt_plain_def str_includes_append_right)

text \<open>
  C3, as stated, fails on the oldest prompt construction (part_004): in a live argument
  partner2's text is a continuation of the one recording, and when there is none the
  prompt goes from partner1's text to the format section, with none of the placeholders.
\<close>

theorem analysisPrompt_plain_live_omits_partner2:
  \<open>\<not> truthy None \<and>
   analysisPrompt_plain counselor ''Alice'' ''Bob'' ''We never talk'' None True
     = ''Analyze this live argument between Alice and Bob:\<newline>\<newline>We never talk\<newline>\<newline>\<newline>FORMAT:\<newline>VERDICT: Start with a clear one-sentence judgment\<newline>KEY POINTS: 2-3 bullet points supporting your verdict\<newline>ADVICE: 2 specific suggestions for better communication'' \<and>
   \<not> str_includes
       (analysisPrompt_plain counselor ''Alice'' ''Bob'' ''We never talk'' None True)
       ''provided''\<close>
proof -
  have eq: \<open>analysisPrompt_plain counselor ''Alice'' ''Bob'' ''We never talk'' None True
     = ''Analyze this live argument between Alice and Bob:\<newline>\<newline>We never talk\<newline>\<newline>\<newline>FORMAT:\<newline>VERDICT: Start with a clear one-sentence judgment\<newline>KEY POINTS: 2-3 bullet points supporting your verdict\<newline>ADVICE: 2 specific suggestions for better communication''\<close>
    by (simp add: analysisPrompt_plain_def truthy_def)
  have "\<not> truthy None" by (simp add: truthy_def)
  moreover have "\<not> str_includes
       (analysisPrompt_plain counselor ''Alice'' ''Bob'' ''We never talk'' None True)
       ''provided''"
    unfolding eq by simp
  ultimately show ?thesis using eq by blast
qed

text \<open>
  C3 (amended). When partner2's text is null or empty, for any names and partner1 text:
  \<open>getUserPrompt\<close> renders the line "- <partner2Name>: No input provided" for every mode
  and both values of \<open>isLiveArgument\<close>; the bulleted construction (part_002) renders the
  same line with "No input provided", "No preferences provided" or "No perspective
  provided", for every mode and both values of \<open>isLiveArgument\<close>; the oldest construction
  (part_004) renders "<partner2Name>'s view: No perspective provided" for evaluator and
  counselor on separate statements, and in a live argument, for every mode, renders
  nothing for partner2: partner1's text is followed by the blank lines and the format
  section.
\<close>

theorem partner2_placeholder:
  assumes "\<not> truthy p2Text"
  shows "str_includes (getUserPrompt m n1 n2 t1 p2Text isLive)
           (''\<newline>- '' @ n2 @ '': No input provided\<newline>'') \<and>
         str_includes (analysisPrompt_bulleted m n1 n2 t1 p2Text isLive)
           (''\<newline>- '' @ n2 @ '': '' @
            (if isLive then ''No input provided''
             else if m = dinner \<or> m = entertainment then ''No preferences provided''
             else ''No perspective provided'') @ ''\<newline>'') \<and>
         (m \<noteq> dinner \<and> m \<noteq> entertainment \<and> \<not> isLive \<longrightarrow>
            str_includes (analysisPrompt_plain m n1 n2 t1 p2Text isLive)
              (''\<newline>'' @ n2 @ '''s view: No perspective provided\<newline>'')) \<and>
         (isLive \<longrightarrow>
            str_includes (analysisPrompt_plain m n1 n2 t1 p2Text isLive)
              ('':\<newline>\<newline>'' @ t1 @ ''\<newline>\<newline>\<newline>FORMAT:\<newline>''))"
proof -
  have "isLive \<longrightarrow>
          str_includes (analysisPrompt_plain m n1 n2 t1 p2Text isLive)
            ('':\<newline>\<newline>'' @ t1 @ ''\<newline>\<newline>\<newline>FORMAT:\<newline>'')"
    using analysisPrompt_plain_live [OF assms] by (cases isLive) simp_all
  with assms getUserPrompt_placeholder analysisPrompt_bulleted_placeholder
    analysisPrompt_plain_placeholder
  show ?thesis by blast
qed

theorem partner2_placeholder_witness:
  "\<not> truthy None \<and> \<not> truthy (Some '''') \<and>
   str_includes (getUserPrompt counselor ''Alice'' ''Bob'' ''We never talk'' None False)
     ''\<newline>- Bob: No input provided\<newline>'' \<and>
   str_includes (analysisPrompt_bulleted counselor ''Alice'' ''Bob'' ''We never talk'' None False)
     ''\<newline>- Bob: No perspective provided\<newline>'' \<and>
   str_includes (analysisPrompt_plain counselor ''Alice'' ''Bob'' ''We never talk'' None False)
     ''\<newline>Bob's view: No perspective provided\<newline>'' \<and>
   str_includes (getUserPrompt dinner ''Alice'' ''Bob'' ''Pizza'' (Some '''') True)
     ''\<newline>- Bob: No input provided\<newline>'' \<and>
   str_includes (analysisPrompt_bulleted dinner ''Alice'' ''Bob'' ''Pizza'' (Some '''') True)
     ''\<newline>- Bob: No input provided\<newline>'' \<and>
   str_includes (analysisPrompt_plain dinner ''Alice'' ''Bob'' ''Pizza'' (Some '''') True)
     '':\<newline>\<newline>Pizza\<newline>\<newline>\<newline>FORMAT:\<newline>''"
proof -
  have a: "\<not> truthy None" and b: "\<not> truthy (Some '''')"
    by (simp_all add: truthy_def)
  from partner2_placeholder [OF a, of counselor "''Alice''" "''Bob''" "''We never talk''" False]
    partner2_placeholder [OF b, of dinner "''Alice''" "''Bob''" "''Pizza''" True]
    a b
  show ?thesis by simp
qed

text \<open>
  On separate statements for dinner and for entertainment the oldest construction has
  the same continuation line, and so renders nothing for an absent partner2 there
  either; the \<open>analyzeConflict\<close> of the same module renders "No preferences provided" at
  that place.
\<close>

lemma analysisPrompt_plain_separate_dinner:
  \<open>analysisPrompt_plain dinner ''Alice'' ''Bob'' ''I like Italian food'' None False
     = ''Based on Alice and Bob's separate food preferences:\<newline>\<newline>I like Italian food\<newline>\<newline>\<newline>FORMAT:\<newline>VERDICT: Start with "You should eat [specific recommendation]"\<newline>WHY: 2-3 bullet points explaining why\<newline>ALTERNATIVES: 1-2 backup options''\<close>
  by (simp add: analysisPrompt_plain_def truthy_def)

text \<open>
  The format section of \<open>getUserPrompt\<close> is that of its own switch: for every mode, both
  values of \<open>isLiveArgument\<close> and any names and texts, the prompt contains the
  \<open>**FORMAT**\<close> heading, and VERDICT, WHY and ALTERNATIVES for dinner and for
  entertainment, WINNER and WHY for evaluator, KEY INSIGHTS and RESOLUTION for counselor.
\<close>

lemma getUserPrompt_own_headers:
  "str_includes (getUserPrompt m n1 n2 t1 t2 isLive) ''**FORMAT**'' \<and>
   str_includes (getUserPrompt evaluator n1 n2 t1 t2 isLive) ''**WINNER**'' \<and>
   str_includes (getUserPrompt evaluator n1 n2 t1 t2 isLive) ''**WHY**'' \<and>
   str_includes (getUserPrompt counselor n1 n2 t1 t2 isLive) ''**KEY INSIGHTS**'' \<and>
   str_includes (getUserPrompt counselor n1 n2 t1 t2 isLive) ''**RESOLUTION**'' \<and>
   str_includes (getUserPrompt dinner n1 n2 t1 t2 isLive) ''**VERDICT**'' \<and>
   str_includes (getUserPrompt dinner n1 n2 t1 t2 isLive) ''**WHY**'' \<and>
   str_includes (getUserPrompt dinner n1 n2 t1 t2 isLive) ''**ALTERNATIVES**'' \<and>
   str_includes (getUserPrompt entertainment n1 n2 t1 t2 isLive) ''**VERDICT**'' \<and>
   str_includes (getUserPrompt entertainment n1 n2 t1 t2 isLive) ''**WHY**'' \<and>
   str_includes (getUserPrompt entertainment n1 n2 t1 t2 isLive) ''**ALTERNATIVES**''"
proof -
  have fmt: "str_includes (getUserPrompt m' n1 n2 t1 t2 isLive) h"
    if "str_includes (format_section m') h" for m' h
    using that
    by (simp add: getUserPrompt_def Let_def str_includes_append_right)
  have "str_includes (format_section m) ''**FORMAT**''"
    by (cases m) (simp_all add: format_section_def)
  moreover have "str_includes (format_section evaluator) ''**WINNER**''"
    "str_includes (format_section evaluator) ''**WHY**''"
    "str_includes (format_section counselor) ''**KEY INSIGHTS**''"
    "str_includes (format_section counselor) ''**RESOLUTION**''"
    "str_includes (format_section dinner) ''**VERDICT**''"
    "str_includes (format_section dinner) ''**WHY**''"
    "str_includes (format_section dinner) ''**ALTERNATIVES**''"
    "str_includes (format_section entertainment) ''**VERDICT**''"
    "str_includes (format_section entertainment) ''**WHY**''"
    "str_includes (format_section entertainment) ''**ALTERNATIVES**''"
    by (simp_all add: format_section_def)
  ultimately show ?thesis
    by (intro conjI fmt)
qed

text \<open>
  The bulleted construction of the earlier module (part_002) asks for VERDICT in every
  mode, with WHY and ALTERNATIVES for dinner and entertainment, KEY POINTS and ADVICE for
  counselor, KEY POINTS and WINNER for evaluator.
\<close>

lemma analysisPrompt_bulleted_headers:
  "str_includes (analysisPrompt_bulleted m n1 n2 t1 t2 isLive) ''**VERDICT**'' \<and>
   str_includes (analysisPrompt_bulleted dinner n1 n2 t1 t2 isLive) ''**WHY**'' \<and>
   str_includes (analysisPrompt_bulleted dinner n1 n2 t1 t2 isLive) ''**ALTERNATIVES**'' \<and>
   str_includes (analysisPrompt_bulleted entertainment n1 n2 t1 t2 isLive) ''**WHY**'' \<and>
   str_includes (analysisPrompt_bulleted entertainment n1 n2 t1 t2 isLive) ''**ALTERNATIVES**'' \<and>
   str_includes (analysisPrompt_bulleted counselor n1 n2 t1 t2 isLive) ''**KEY POINTS**'' \<and>
   str_includes (analysisPrompt_bulleted counselor n1 n2 t1 t2 isLive) ''**ADVICE**'' \<and>
   str_includes (analysisPrompt_bulleted evaluator n1 n2 t1 t2 isLive) ''**KEY POINTS**'' \<and>
   str_includes (analysisPrompt_bulleted evaluator n1 n2 t1 t2 isLive) ''**WINNER**''"
proof -
  have "str_includes (analysisPrompt_bulleted m n1 n2 t1 t2 isLive) ''**VERDICT**''"
    by (cases m; cases isLive)
       (simp_all add: analysisPrompt_bulleted_def str_includes_append_right)
  moreover have
    "str_includes (analysisPrompt_bulleted dinner n1 n2 t1 t2 isLive) ''**WHY**''"
    "str_includes (analysisPrompt_bulleted dinner n1 n2 t1 t2 isLive) ''**ALTERNATIVES**''"
    "str_includes (analysisPrompt_bulleted entertainment n1 n2 t1 t2 isLive) ''**WHY**''"
    "str_includes (analysisPrompt_bulleted entertainment n1 n2 t1 t2 isLive) ''**ALTERNATIVES**''"
    "str_includes (analysisPrompt_bulleted counselor n1 n2 t1 t2 isLive) ''**KEY POINTS**''"
    "str_includes (analysisPrompt_bulleted counselor n1 n2 t1 t2 isLive) ''**ADVICE**''"
    "str_includes (analysisPrompt_bulleted evaluator n1 n2 t1 t2 isLive) ''**KEY POINTS**''"
    "str_includes (analysisPrompt_bulleted evaluator n1 n2 t1 t2 isLive) ''**WINNER**''"
    by (cases isLive; simp add: analysisPrompt_bulleted_def str_includes_append_right)+
  ultimately show ?thesis by (intro conjI)
qed

text \<open>
  C8 fails for counselor and for evaluator. The headers named for the modes are VERDICT,
  WHY or KEY POINTS, and ALTERNATIVES, ADVICE or WINNER; the earlier module asks for
  VERDICT, KEY POINTS and ADVICE from a counselor and for VERDICT, KEY POINTS and WINNER
  from an evaluator, and the test of a live counselor analysis expects \<open>**VERDICT**\<close>,
  \<open>**KEY POINTS**\<close> and \<open>**ADVICE**\<close> in the verdict. \<open>getUserPrompt\<close> asks a counselor
  for KEY INSIGHTS and RESOLUTION and an evaluator for WINNER and WHY: its prompt for a
  counselor contains none of VERDICT, KEY POINTS, ADVICE, and its prompt for an evaluator
  neither VERDICT nor KEY POINTS.
\<close>

theorem getUserPrompt_lacks_mandated_headers:
  \<open>getUserPrompt counselor ''Alice'' ''Bob'' ''We never talk'' (Some ''You never listen'') True
     = ''Based on the following argument discussion:\<newline>- Alice: We never talk\<newline>- Bob: You never listen\<newline>\<newline>**FORMAT**:\<newline>- **KEY INSIGHTS**: 2-3 bullet points summarizing the conflict\<newline>- **RESOLUTION**: Specific advice to resolve the conflict'' \<and>
   \<not> str_includes (getUserPrompt counselor ''Alice'' ''Bob'' ''We never talk''
                      (Some ''You never listen'') True) ''VERDICT'' \<and>
   \<not> str_includes (getUserPrompt counselor ''Alice'' ''Bob'' ''We never talk''
                      (Some ''You never listen'') True) ''KEY POINTS'' \<and>
   \<not> str_includes (getUserPrompt counselor ''Alice'' ''Bob'' ''We never talk''
                      (Some ''You never listen'') True) ''ADVICE'' \<and>
   getUserPrompt evaluator ''Alice'' ''Bob'' ''We never talk'' (Some ''You never listen'') True
     = ''Based on the following argument discussion:\<newline>- Alice: We never talk\<newline>- Bob: You never listen\<newline>\<newline>**FORMAT**:\<newline>- **WINNER**: [Name of the winner]\<newline>- **WHY**: 2-3 bullet points explaining why they are right'' \<and>
   \<not> str_includes (getUserPrompt evaluator ''Alice'' ''Bob'' ''We never talk''
                      (Some ''You never listen'') True) ''VERDICT'' \<and>
   \<not> str_includes (getUserPrompt evaluator ''Alice'' ''Bob'' ''We never talk''
                      (Some ''You never listen'') True) ''KEY POINTS''\<close>
  by (simp add: getUserPrompt_def INTRO_TEXT_def format_section_def truthy_def Let_def)

section \<open>Analysis adapter: properties\<close>

lemma accumulate_concat: "accumulate acc chunks = acc @ concat chunks"
  by (induction chunks arbitrary: acc) simp_all

lemma read_textStream_Inr:
  "read_textStream ts = Inr full \<longleftrightarrow> (\<exists>chunks. ts = TextStream chunks None \<and> full = concat chunks)"
  by (cases ts) (auto simp: read_textStream_def accumulate_concat split: option.splits)

lemma upstream_onComplete [simp]: "upstream env (options\<lparr>onComplete := cb\<rparr>) = upstream env options"
  by (simp add: upstream_def)

text \<open>What \<open>createAnalysisStream\<close> does, by the outcome of the upstream call.\<close>

lemma createAnalysisStream_completed:
  assumes "upstream env options = Inr (TextStream chunks None)"
  shows "createAnalysisStream env options s =
           (case onComplete options
                   (JSON_stringify \<lparr>verdict = concat chunks, timestamp = now env\<rparr>) s of
              (Inl e, s') \<Rightarrow> (Inl analysis_failed, s')
            | (Inr u, s') \<Rightarrow> (Inr \<lparr>res_aiResponse = concat chunks\<rparr>, s'))"
  using assms
  by (simp add: createAnalysisStream_def upstream_def Let_def read_textStream_def
      accumulate_concat split: prod.splits sum.splits)

lemma createAnalysisStream_not_completed:
  assumes "\<And>chunks. upstream env options \<noteq> Inr (TextStream chunks None)"
  shows "createAnalysisStream env options s = (Inl analysis_failed, s)"
proof (cases "upstream env options")
  case (Inl e)
  then show ?thesis
    by (simp add: createAnalysisStream_def upstream_def Let_def)
next
  case (Inr ts)
  with assms obtain chunks e where "ts = TextStream chunks (Some e)"
    by (cases ts) (metis option.exhaust)
  with Inr show ?thesis
    by (simp add: createAnalysisStream_def upstream_def Let_def read_textStream_def)
qed

text \<open>The sibling path: \<open>analyzeConflict\<close> refuses an empty accumulated response.\<close>

lemma analyzeConflict_zero_chunks:
  assumes "\<And>req. streamText env req = Inr (TextStream [] None)"
  shows "analyzeConflict env p1Text p2Text m isLive p1Name p2Name = Inl analysis_failed"
  using assms
  by (simp add: analyzeConflict_def Let_def read_textStream_def split: sum.splits)

text \<open>
  C2. The claim holds for \<open>analyzeConflict\<close> (lemma above) and fails for
  \<open>createAnalysisStream\<close>, which has no emptiness check: on an upstream stream that yields
  zero chunks it hands the envelope with the empty verdict to \<open>onComplete\<close> and returns
  successfully with an empty \<open>aiResponse\<close>.
\<close>

theorem createAnalysisStream_empty_stream_succeeds:
  \<open>createAnalysisStream (fixed_env []) (sample_options (recording accept)) ((), [])
     = (Inr \<lparr>res_aiResponse = ''''\<rparr>,
        ((), [''{"verdict":"","timestamp":"2025-01-01T00:00:00.000Z"}'']))\<close>
  by (simp add: createAnalysisStream_def fixed_env_def sample_options_def recording_def
      read_textStream_def JSON_stringify_def JSON_quote_def JSON_escape_def Let_def
      accept_def)

text \<open>
  C4, as stated, fails in its last part: a failure of the callback is thrown inside the
  \<open>try\<close> block, so the \<open>catch\<close> replaces it by the generic error.
\<close>

theorem createAnalysisStream_callback_failure_replaced:
  "createAnalysisStream (fixed_env [''ok''])
       (sample_options reject) ()
     = (Inl (Error ''Analysis failed. Please try again.''), ()) \<and>
   Error ''Analysis failed. Please try again.'' \<noteq> Error ''Session not found''"
  by (simp add: createAnalysisStream_def fixed_env_def sample_options_def
      read_textStream_def analysis_failed_def Let_def reject_def)

text \<open>
  C4 (amended). When \<open>streamText\<close> and its stream complete without error,
  \<open>createAnalysisStream\<close> invokes \<open>onComplete\<close> exactly once, after the whole stream has
  been accumulated, with the serialised envelope as argument; the call then succeeds with
  the accumulated text if the callback succeeds, and fails with the generic "Analysis
  failed. Please try again." if the callback throws. When the upstream call or the stream
  fails, the callback is not invoked and the call fails with the same generic error.
\<close>

theorem onComplete_invoked_once:
  "(upstream env options = Inr (TextStream chunks None) \<longrightarrow>
      snd (snd (createAnalysisStream env (options\<lparr>onComplete := recording cb\<rparr>) (s, calls)))
        = calls @ [JSON_stringify \<lparr>verdict = concat chunks, timestamp = now env\<rparr>] \<and>
      fst (createAnalysisStream env (options\<lparr>onComplete := recording cb\<rparr>) (s, calls))
        = (case fst (cb (JSON_stringify \<lparr>verdict = concat chunks, timestamp = now env\<rparr>) s) of
             Inl e \<Rightarrow> Inl analysis_failed
           | Inr u \<Rightarrow> Inr \<lparr>res_aiResponse = concat chunks\<rparr>)) \<and>
   ((\<forall>chunks. upstream env options \<noteq> Inr (TextStream chunks None)) \<longrightarrow>
      createAnalysisStream env (options\<lparr>onComplete := recording cb\<rparr>) (s, calls)
        = (Inl analysis_failed, (s, calls)))"
proof (intro conjI impI)
  let ?opts = "options\<lparr>onComplete := recording cb\<rparr>"
  let ?final = "JSON_stringify \<lparr>verdict = concat chunks, timestamp = now env\<rparr>"
  assume up: "upstream env options = Inr (TextStream chunks None)"
  then have "upstream env ?opts = Inr (TextStream chunks None)" by simp
  from createAnalysisStream_completed [OF this, of "(s, calls)"]
  have run: "createAnalysisStream env ?opts (s, calls) =
               (case recording cb ?final (s, calls) of
                  (Inl e, s') \<Rightarrow> (Inl analysis_failed, s')
                | (Inr u, s') \<Rightarrow> (Inr \<lparr>res_aiResponse = concat chunks\<rparr>, s'))"
    by simp
  show "snd (snd (createAnalysisStream env ?opts (s, calls))) = calls @ [?final]"
    unfolding run by (simp add: recording_def split: prod.splits sum.splits)
  show "fst (createAnalysisStream env ?opts (s, calls))
          = (case fst (cb ?final s) of
               Inl e \<Rightarrow> Inl analysis_failed
             | Inr u \<Rightarrow> Inr \<lparr>res_aiResponse = concat chunks\<rparr>)"
    unfolding run by (simp add: recording_def split: prod.splits sum.splits)
next
  let ?opts = "options\<lparr>onComplete := recording cb\<rparr>"
  assume "\<forall>chunks. upstream env options \<noteq> Inr (TextStream chunks None)"
  then have "\<And>chunks. upstream env ?opts \<noteq> Inr (TextStream chunks None)" by simp
  then show "createAnalysisStream env ?opts (s, calls) = (Inl analysis_failed, (s, calls))"
    by (rule createAnalysisStream_not_completed)
qed

theorem onComplete_invoked_once_witness:
  \<open>upstream (fixed_env [''You should '', ''eat Thai''])
       (sample_options (recording accept))
     = Inr (TextStream [''You should '', ''eat Thai''] None) \<and>
   snd (snd (createAnalysisStream (fixed_env [''You should '', ''eat Thai''])
               (sample_options (recording accept)) ((), [])))
     = [''{"verdict":"You should eat Thai","timestamp":"2025-01-01T00:00:00.000Z"}''] \<and>
   fst (createAnalysisStream (fixed_env [''You should '', ''eat Thai''])
          (sample_options (recording accept)) ((), []))
     = Inr \<lparr>res_aiResponse = ''You should eat Thai''\<rparr> \<and>
   (\<forall>chunks. upstream failing_env (sample_options (recording accept))
               \<noteq> Inr (TextStream chunks None)) \<and>
   createAnalysisStream failing_env (sample_options (recording accept)) ((), [])
     = (Inl analysis_failed, ((), []))\<close>
proof -
  have up: "upstream (fixed_env [''You should '', ''eat Thai'']) (sample_options (recording accept))
              = Inr (TextStream [''You should '', ''eat Thai''] None)"
    by (simp add: upstream_def fixed_env_def)
  have down: "\<forall>chunks. upstream failing_env (sample_options (recording accept))
                 \<noteq> Inr (TextStream chunks None)"
    by (simp add: upstream_def failing_env_def)
  have opts: "(sample_options (recording accept))\<lparr>onComplete := recording accept\<rparr>
                = sample_options (recording accept)"
    by (simp add: sample_options_def)
  have clock: "now (fixed_env [''You should '', ''eat Thai'']) = ''2025-01-01T00:00:00.000Z''"
    by (simp add: fixed_env_def)
  from onComplete_invoked_once
         [where env = "fixed_env [''You should '', ''eat Thai'']"
            and options = "sample_options (recording accept)"
            and chunks = "[''You should '', ''eat Thai'']"
            and cb = accept and s = "()" and calls = "[]"]
       up
  have A: \<open>snd (snd (createAnalysisStream (fixed_env [''You should '', ''eat Thai''])
                       (sample_options (recording accept)) ((), [])))
            = [''{"verdict":"You should eat Thai","timestamp":"2025-01-01T00:00:00.000Z"}''] \<and>
          fst (createAnalysisStream (fixed_env [''You should '', ''eat Thai''])
                 (sample_options (recording accept)) ((), []))
            = Inr \<lparr>res_aiResponse = ''You should eat Thai''\<rparr>\<close>
    unfolding opts clock
    by (simp add: JSON_stringify_def JSON_quote_def JSON_escape_def accept_def)
  from onComplete_invoked_once
         [where env = failing_env and options = "sample_options (recording accept)"
            and cb = accept and s = "()" and calls = "[]"]
       down
  have B: "createAnalysisStream failing_env (sample_options (recording accept)) ((), [])
             = (Inl analysis_failed, ((), []))"
    unfolding opts by blast
  show ?thesis
    by (intro conjI up conjunct1 [OF A] conjunct2 [OF A] down B)
qed

text \<open>
  C5, as stated, fails for \<open>createAnalysisStream\<close>: what it returns is the object
  \<open>{ aiResponse: fullResponse }\<close> holding the accumulated text itself, not the serialised
  envelope.
\<close>

theorem createAnalysisStream_returns_raw_text:
  \<open>createAnalysisStream (fixed_env [''ok'']) (sample_options accept) ()
     = (Inr \<lparr>res_aiResponse = ''ok''\<rparr>, ()) \<and>
   JSON_stringify \<lparr>verdict = ''ok'', timestamp = now (fixed_env [''ok''])\<rparr>
     = ''{"verdict":"ok","timestamp":"2025-01-01T00:00:00.000Z"}'' \<and>
   ''ok'' \<noteq> JSON_stringify \<lparr>verdict = ''ok'', timestamp = now (fixed_env [''ok''])\<rparr>\<close>
  by (simp add: createAnalysisStream_def fixed_env_def sample_options_def
      read_textStream_def JSON_stringify_def JSON_quote_def JSON_escape_def Let_def
      accept_def)

lemma analyzeConflict_Inr:
  assumes "analyzeConflict env p1Text p2Text m isLive p1Name p2Name = Inr response"
  shows "\<exists>req chunks. streamText env req = Inr (TextStream chunks None) \<and>
           concat chunks \<noteq> [] \<and>
           response = JSON_stringify \<lparr>verdict = concat chunks, timestamp = now env\<rparr>"
  using assms
  by (auto simp: analyzeConflict_def Let_def read_textStream_Inr
      split: sum.splits if_splits)

lemma createAnalysisStream_Inr:
  assumes "fst (createAnalysisStream env options s) = Inr result"
  shows "\<exists>chunks. upstream env options = Inr (TextStream chunks None) \<and>
           res_aiResponse result = concat chunks"
proof (cases "\<exists>chunks. upstream env options = Inr (TextStream chunks None)")
  case True
  then obtain chunks where up: "upstream env options = Inr (TextStream chunks None)" by blast
  from assms have "res_aiResponse result = concat chunks"
    unfolding createAnalysisStream_completed [OF up]
    by (auto split: prod.splits sum.splits)
  with up show ?thesis by blast
next
  case False
  then have "createAnalysisStream env options s = (Inl analysis_failed, s)"
    by (intro createAnalysisStream_not_completed) blast
  with assms show ?thesis by simp
qed

text \<open>
  C5 (amended). Every successful call of \<open>analyzeConflict\<close> returns the accumulated
  stream text (which is then non-empty) wrapped as \<open>{ verdict, timestamp }\<close> and
  serialised to a JSON string. Every successful call of \<open>createAnalysisStream\<close> hands
  that serialised envelope to \<open>onComplete\<close> and returns \<open>{ aiResponse }\<close> holding the
  accumulated text itself.
\<close>

theorem analysis_success_envelope:
  "(analyzeConflict env p1Text p2Text m isLive p1Name p2Name = Inr response \<longrightarrow>
      (\<exists>req chunks. streamText env req = Inr (TextStream chunks None) \<and>
         concat chunks \<noteq> [] \<and>
         response = JSON_stringify \<lparr>verdict = concat chunks, timestamp = now env\<rparr>)) \<and>
   (fst (createAnalysisStream env (options\<lparr>onComplete := recording cb\<rparr>) (s, [])) = Inr result \<longrightarrow>
      (\<exists>chunks. upstream env options = Inr (TextStream chunks None) \<and>
         res_aiResponse result = concat chunks \<and>
         snd (snd (createAnalysisStream env (options\<lparr>onComplete := recording cb\<rparr>) (s, [])))
           = [JSON_stringify \<lparr>verdict = concat chunks, timestamp = now env\<rparr>]))"
proof (intro conjI impI)
  assume "analyzeConflict env p1Text p2Text m isLive p1Name p2Name = Inr response"
  then show "\<exists>req chunks. streamText env req = Inr (TextStream chunks None) \<and>
         concat chunks \<noteq> [] \<and>
         response = JSON_stringify \<lparr>verdict = concat chunks, timestamp = now env\<rparr>"
    by (rule analyzeConflict_Inr)
next
  let ?opts = "options\<lparr>onComplete := recording cb\<rparr>"
  assume ok: "fst (createAnalysisStream env ?opts (s, [])) = Inr result"
  from createAnalysisStream_Inr [OF ok]
  obtain chunks where up: "upstream env options = Inr (TextStream chunks None)"
    and res: "res_aiResponse result = concat chunks"
    by auto
  from up have up': "upstream env ?opts = Inr (TextStream chunks None)" by simp
  have "snd (snd (createAnalysisStream env ?opts (s, [])))
          = [JSON_stringify \<lparr>verdict = concat chunks, timestamp = now env\<rparr>]"
    unfolding createAnalysisStream_completed [OF up']
    by (simp add: recording_def split: prod.splits sum.splits)
  with up res
  show "\<exists>chunks. upstream env options = Inr (TextStream chunks None) \<and>
         res_aiResponse result = concat chunks \<and>
         snd (snd (createAnalysisStream env ?opts (s, [])))
           = [JSON_stringify \<lparr>verdict = concat chunks, timestamp = now env\<rparr>]"
    by blast
qed

theorem analysis_success_envelope_witness:
  \<open>analyzeConflict (fixed_env [''You should '', ''eat Thai''])
       ''{"text":"I like Italian food"}'' ''{"text":"I prefer Thai food"}''
       dinner False ''Alice'' ''Bob''
     = Inr ''{"verdict":"You should eat Thai","timestamp":"2025-01-01T00:00:00.000Z"}'' \<and>
   (\<exists>req chunks.
      streamText (fixed_env [''You should '', ''eat Thai'']) req = Inr (TextStream chunks None) \<and>
      concat chunks \<noteq> [] \<and>
      ''{"verdict":"You should eat Thai","timestamp":"2025-01-01T00:00:00.000Z"}''
        = JSON_stringify \<lparr>verdict = concat chunks,
                           timestamp = now (fixed_env [''You should '', ''eat Thai''])\<rparr>) \<and>
   fst (createAnalysisStream (fixed_env [''You should '', ''eat Thai''])
          (sample_options (recording accept)) ((), []))
     = Inr \<lparr>res_aiResponse = ''You should eat Thai''\<rparr> \<and>
   (\<exists>chunks.
      upstream (fixed_env [''You should '', ''eat Thai''])
          (sample_options (recording accept))
        = Inr (TextStream chunks None) \<and>
      ''You should eat Thai'' = concat chunks \<and>
      snd (snd (createAnalysisStream (fixed_env [''You should '', ''eat Thai''])
                  (sample_options (recording accept)) ((), [])))
        = [JSON_stringify \<lparr>verdict = concat chunks,
                            timestamp = now (fixed_env [''You should '', ''eat Thai''])\<rparr>])\<close>
proof -
  let ?env = "fixed_env [''You should '', ''eat Thai'']"
  let ?json = \<open>''{"verdict":"You should eat Thai","timestamp":"2025-01-01T00:00:00.000Z"}''\<close>
  let ?p1 = \<open>''{"text":"I like Italian food"}''\<close>
  let ?p2 = \<open>''{"text":"I prefer Thai food"}''\<close>
  have a: "analyzeConflict ?env ?p1 ?p2 dinner False ''Alice'' ''Bob'' = Inr ?json"
    by (simp add: analyzeConflict_def fixed_env_def sample_parse_def read_textStream_def Let_def
        JSON_stringify_def JSON_quote_def JSON_escape_def)
  have opts: "(sample_options (recording accept))\<lparr>onComplete := recording accept\<rparr>
                = sample_options (recording accept)"
    by (simp add: sample_options_def)
  have b: "fst (createAnalysisStream ?env (sample_options (recording accept)) ((), []))
             = Inr \<lparr>res_aiResponse = ''You should eat Thai''\<rparr>"
    by (simp add: createAnalysisStream_def fixed_env_def sample_options_def recording_def
        read_textStream_def Let_def accept_def)
  from analysis_success_envelope
         [where env = ?env and ?p1Text = ?p1 and ?p2Text = ?p2 and m = dinner and isLive = False
            and ?p1Name = "''Alice''" and ?p2Name = "''Bob''" and response = ?json
            and options = "sample_options (recording accept)" and cb = accept and s = "()"
            and result = "\<lparr>res_aiResponse = ''You should eat Thai''\<rparr>"]
       a b
  show ?thesis
    unfolding opts by simp
qed

text \<open>
  On a string that is not JSON the call fails before any prompt is built: the two
  arguments of \<open>analyzeConflict\<close> are transcriptions, not sentences.
\<close>

lemma analyzeConflict_plain_sentence_fails:
  "analyzeConflict (fixed_env [''You should '', ''eat Thai''])
       ''I like Italian food'' ''I prefer Thai food'' dinner False ''Alice'' ''Bob''
     = Inl analysis_failed"
  by (simp add: analyzeConflict_def fixed_env_def sample_parse_def)

section \<open>Transcription adapter: properties\<close>

text \<open>
  The two behaviours of \<open>retryWithBackoff\<close>: an error whose message contains
  "insufficient_quota" ends the loop at once, without sleeping; three failures without
  that marker make three attempts, with delays of 1, 2 and 4 times the initial delay.
\<close>

lemma retryWithBackoff_quota_marker:
  assumes "operation w = (Inl (Error msg), w')" "str_includes msg ''insufficient_quota''"
    "0 < maxRetries"
  shows "retryWithBackoff operation maxRetries initialDelay w = (Inl (Error msg), w')"
  using assms by (simp add: retryWithBackoff_def retry_loop.simps)

lemma retry_loop_step:
  assumes "i < maxRetries" "operation w = (Inl (Error msg), w')"
    "\<not> str_includes msg ''insufficient_quota''"
  shows "retry_loop operation maxRetries initialDelay i lastError w
           = retry_loop operation maxRetries initialDelay (Suc i) (Error msg)
               (sleep (initialDelay * 2 ^ i) w')"
  using assms by (subst retry_loop.simps) simp

lemma retry_loop_exhausted:
  assumes "\<not> i < maxRetries"
  shows "retry_loop operation maxRetries initialDelay i lastError w = (Inl lastError, w)"
  using assms by (subst retry_loop.simps) simp

lemma retryWithBackoff_three_failures:
  assumes "operation w = (Inl (Error m1), w1)" "\<not> str_includes m1 ''insufficient_quota''"
    "operation (sleep initialDelay w1) = (Inl (Error m2), w2)"
    "\<not> str_includes m2 ''insufficient_quota''"
    "operation (sleep (initialDelay * 2) w2) = (Inl (Error m3), w3)"
    "\<not> str_includes m3 ''insufficient_quota''"
  shows "retryWithBackoff operation 3 initialDelay w
           = (Inl (Error m3), sleep (initialDelay * 4) w3)"
proof -
  have "retryWithBackoff operation 3 initialDelay w
          = retry_loop operation 3 initialDelay 0 Undefined w"
    by (simp add: retryWithBackoff_def)
  also have "\<dots> = retry_loop operation 3 initialDelay (Suc 0) (Error m1)
                      (sleep (initialDelay * 2 ^ 0) w1)"
    using assms(1,2) by (intro retry_loop_step) simp_all
  also have "\<dots> = retry_loop operation 3 initialDelay (Suc (Suc 0)) (Error m2)
                      (sleep (initialDelay * 2 ^ Suc 0) w2)"
    using assms(3,4) by (intro retry_loop_step) simp_all
  also have "\<dots> = retry_loop operation 3 initialDelay (Suc (Suc (Suc 0))) (Error m3)
                      (sleep (initialDelay * 2 ^ Suc (Suc 0)) w3)"
    using assms(5,6) by (intro retry_loop_step) simp_all
  also have "\<dots> = (Inl (Error m3), sleep (initialDelay * 2 ^ Suc (Suc 0)) w3)"
    by (intro retry_loop_exhausted) simp
  finally show ?thesis by simp
qed

text \<open>
  C1. The claim fails on the quota path of \<open>transcribeAudio\<close>. The upload operation
  reports an exhausted quota as an error with the message "OpenAI API quota exceeded.
  ...", which does not contain the marker "insufficient_quota" that \<open>retryWithBackoff\<close>
  looks for; the failure is therefore retried like any other: three requests, with
  delays of 1000, 2000 and 4000 ms.
\<close>

theorem quota_failure_is_retried:
  "transcribeAudio (recording_env (Num 2) quota_response) ''UklGRg=='' World_init
     = (Inl (Error ''OpenAI API quota exceeded. Please check your billing status and ensure you have available credits.''),
        \<lparr>attempts = 3, requests = 3, sleeps = [1000, 2000, 4000],
         unlinked = [TempFile, WavFile, TempFile, WavFile]\<rparr>)"
proof -
  let ?quota = "Error ''OpenAI API quota exceeded. Please check your billing status and ensure you have available credits.''"
  let ?env = "recording_env (Num 2) quota_response"
  have err: "api_error 429 t
               (ErrorJson (Some ''insufficient_quota'') m) = ?quota" for t m
    by (simp add: api_error_def)
  have op: "upload ?env w = (Inl ?quota, w\<lparr>attempts := attempts w + 1, requests := requests w + 1\<rparr>)"
    for w
    by (simp add: upload_def recording_env_def quota_response_def err Let_def)
  have no_marker: "\<not> str_includes
      ''OpenAI API quota exceeded. Please check your billing status and ensure you have available credits.''
      ''insufficient_quota''"
    by simp
  have "retryWithBackoff (upload ?env) 3 1000 World_init
          = (Inl ?quota, \<lparr>attempts = 3, requests = 3, sleeps = [1000, 2000, 4000], unlinked = []\<rparr>)"
    by (subst retryWithBackoff_three_failures [OF op no_marker op no_marker op no_marker])
       (simp add: sleep_def World_init_def)
  then show ?thesis
    by (simp add: transcribeAudio_def recording_env_def double_0_1_def unlink_both_def)
qed

text \<open>
  C9. When the probe reports a duration under 0.1 seconds, \<open>transcribeAudio\<close> fails and
  issues no request and no upload attempt; and whenever the probe was reached (the
  input is non-empty, the temporary file was written with a positive size and the
  conversion succeeded) the failure is the duration error "Failed to verify audio
  duration: Audio recording is too short. ...".
\<close>

theorem too_short_audio_rejected_before_upload:
  assumes "ffprobe env = Inr (Num d)" "d < 1 / 10"
  shows "(\<exists>e. fst (transcribeAudio env audioBase64 w) = Inl e) \<and>
         requests (snd (transcribeAudio env audioBase64 w)) = requests w \<and>
         attempts (snd (transcribeAudio env audioBase64 w)) = attempts w \<and>
         (audioBase64 \<noteq> [] \<and> writeFile env = None \<and> (\<exists>n>0. stat_size env = Inr n) \<and>
          ffmpeg env = None \<longrightarrow>
            fst (transcribeAudio env audioBase64 w)
              = Inl (Error ''Failed to verify audio duration: Audio recording is too short. Please record for at least 1-2 seconds.''))"
proof -
  from assms(2) have "d < double_0_1"
    by (simp add: double_0_1_def)
  with assms(1) show ?thesis
    by (auto simp: transcribeAudio_def unlink_both_def split: option.splits sum.splits)
qed

theorem too_short_audio_rejected_before_upload_witness:
  "ffprobe (recording_env (Num (1 / 20)) overloaded_response) = Inr (Num (1 / 20)) \<and>
   (1 / 20 :: rat) < 1 / 10 \<and>
   transcribeAudio (recording_env (Num (1 / 20)) overloaded_response) ''UklGRg=='' World_init
     = (Inl (Error ''Failed to verify audio duration: Audio recording is too short. Please record for at least 1-2 seconds.''),
        \<lparr>attempts = 0, requests = 0, sleeps = [],
         unlinked = [TempFile, WavFile, TempFile, WavFile]\<rparr>)"
proof -
  let ?env = "recording_env (Num (1 / 20)) overloaded_response"
  have p: "ffprobe ?env = Inr (Num (1 / 20))"
    by (simp add: recording_env_def)
  have q: "(1 / 20 :: rat) < 1 / 10" by simp
  have reached: "''UklGRg=='' \<noteq> [] \<and> writeFile ?env = None \<and>
      (\<exists>n>0. stat_size ?env = Inr n) \<and> ffmpeg ?env = None"
    by (simp add: recording_env_def)
  from too_short_audio_rejected_before_upload [OF p q, of "''UklGRg==''" World_init] reached
  have r: "fst (transcribeAudio ?env ''UklGRg=='' World_init)
             = Inl (Error ''Failed to verify audio duration: Audio recording is too short. Please record for at least 1-2 seconds.'')"
    and n: "requests (snd (transcribeAudio ?env ''UklGRg=='' World_init)) = 0"
    and a: "attempts (snd (transcribeAudio ?env ''UklGRg=='' World_init)) = 0"
    by (simp_all add: World_init_def)
  have w: "snd (transcribeAudio ?env ''UklGRg=='' World_init)
             = \<lparr>attempts = 0, requests = 0, sleeps = [],
                unlinked = [TempFile, WavFile, TempFile, WavFile]\<rparr>"
    by (simp add: transcribeAudio_def recording_env_def double_0_1_def unlink_both_def
        World_init_def)
  from r w have "transcribeAudio ?env ''UklGRg=='' World_init
     = (Inl (Error ''Failed to verify audio duration: Audio recording is too short. Please record for at least 1-2 seconds.''),
        \<lparr>attempts = 0, requests = 0, sleeps = [],
         unlinked = [TempFile, WavFile, TempFile, WavFile]\<rparr>)"
    by (simp add: prod_eq_iff)
  with p q show ?thesis by (intro conjI)
qed


text \<open>
  The check is \<open>duration < 0.1\<close> on the parsed number: a probe output that does not
  parse (\<open>NaN\<close>) passes it, and the upload is attempted.
\<close>

lemma unparsed_duration_reaches_upload:
  "transcribeAudio
     (recording_env NaN
        (Response_ok \<lparr>result_text = Some ''hello'', result_segments = None, result_words = None\<rparr>))
     ''UklGRg=='' World_init
   = (Inr (stringify_transcription ''hello'' None None),
      \<lparr>attempts = 1, requests = 1, sleeps = [], unlinked = [TempFile, WavFile]\<rparr>)"
  by (simp add: transcribeAudio_def recording_env_def retryWithBackoff_def retry_loop.simps
      upload_def truthy_def unlink_both_def World_init_def Let_def)

section \<open>Request pipeline and store: properties\<close>

text \<open>
  The \<open>createAnalysisStream\<close> of ai_new.ts is \<open>createAnalysisStream_from\<close> at the
  request it builds.
\<close>

lemma createAnalysisStream_from_prompts:
  "createAnalysisStream env options s
     = createAnalysisStream_from env
         (Inr (analysis_request (opt_mode options) (SYSTEM_PROMPTS (opt_mode options))
                 (getUserPrompt (opt_mode options)
                    (opt_partner1Name options) (opt_partner2Name options)
                    (opt_partner1Transcription options) (opt_partner2Transcription options)
                    (opt_isLiveArgument options))))
         (onComplete options) s"
  by (simp add: createAnalysisStream_def createAnalysisStream_from_def Let_def)

text \<open>
  The analysis leaves the state it is threaded through as it was, or as one call of the
  callback leaves it.
\<close>

lemma createAnalysisStream_from_state:
  "snd (createAnalysisStream_from env request callback s) = s \<or>
   (\<exists>response. snd (createAnalysisStream_from env request callback s)
      = snd (callback response s))"
proof (cases request)
  case (Inl e)
  then show ?thesis by (simp add: createAnalysisStream_from_def)
next
  case req: (Inr req)
  show ?thesis
  proof (cases "streamText env req")
    case (Inl e)
    with req show ?thesis by (simp add: createAnalysisStream_from_def)
  next
    case st: (Inr result)
    show ?thesis
    proof (cases "read_textStream result")
      case (Inl e)
      with req st show ?thesis by (simp add: createAnalysisStream_from_def)
    next
      case (Inr fullResponse)
      let ?r = "JSON_stringify \<lparr>verdict = fullResponse, timestamp = now env\<rparr>"
      from req st Inr
      have "snd (createAnalysisStream_from env request callback s) = snd (callback ?r s)"
        by (simp add: createAnalysisStream_from_def Let_def split: prod.splits sum.splits)
      then show ?thesis by blast
    qed
  qed
qed

lemma store_response_state:
  "snd (store_response i response s) = snd (storage_updateSessionResponse i response s)"
  by (simp add: store_response_def split: prod.splits sum.splits)

text \<open>
  The second part of the handler makes no call on the store, or one call of
  \<open>updateSessionResponse\<close>, on the session the first part created.
\<close>

lemma finish_submission_state:
  "snd (finish_submission a s) = s \<or>
   (\<exists>response. snd (finish_submission a s)
      = snd (storage_updateSessionResponse (id (awaiting_session a)) response s))"
proof -
  let ?run = "createAnalysisStream_from (analysis (awaiting_env a))
             (prompts (awaiting_env a)
                (ins_partner1Name (awaiting_data a)) (ins_partner2Name (awaiting_data a))
                (awaiting_partner1Transcription a) (awaiting_partner2Transcription a)
                (ins_mode (awaiting_data a))
                (ins_isLiveArgument (awaiting_data a) = Some True))
             (store_response (id (awaiting_session a))) s"
  have "snd (finish_submission a s) = snd ?run"
    by (simp add: finish_submission_def split: prod.splits sum.splits)
  with createAnalysisStream_from_state [of "analysis (awaiting_env a)" _
         "store_response (id (awaiting_session a))" s]
  show ?thesis by (simp add: store_response_state)
qed

text \<open>
  The first part of the handler answers without a call on the store, or makes one call
  of \<open>createSession\<close> and keeps the session it returned.
\<close>

lemma begin_submission_cases:
  "(\<exists>response. begin_submission env data s = (Inl response, s)) \<or>
   (\<exists>a. begin_submission env data s
            = (Inr a, snd (storage_createSession (InsertSession.truncate data) s)) \<and>
        awaiting_session a = fst (storage_createSession (InsertSession.truncate data) s))"
  by (simp add: begin_submission_def split: sum.splits bool.splits prod.splits)


text \<open>Sequences of calls.\<close>

lemma final_state_append: "final_state (cs @ ds) st = final_state ds (final_state cs st)"
  by (induction cs arbitrary: st) simp_all

lemma states_of_append:
  "states_of (cs @ ds) st = states_of cs st @ states_of ds (final_state cs st)"
  by (induction cs arbitrary: st) simp_all

lemma length_states_of: "length (states_of cs st) = length cs"
  by (induction cs arbitrary: st) simp_all

lemma writes_append: "writes i (cs @ ds) = writes i cs + writes i ds"
  by (induction i cs rule: writes.induct) simp_all

text \<open>What the two writing methods do to ids and responses.\<close>

lemma keeps_refl: "keeps st st"
  by (simp add: keeps_def)

lemma keeps_trans: "keeps a b \<Longrightarrow> keeps b c \<Longrightarrow> keeps a c"
  by (simp add: keeps_def)

lemma createSession_id: "id (fst (createSession ins st)) = currentId st"
  by (simp add: createSession_def Let_def)

lemma createSession_aiResponse: "aiResponse (fst (createSession ins st)) = None"
  by (simp add: createSession_def Let_def)

lemma createSession_sessions:
  "sessions (snd (createSession ins st))
     = (sessions st)(currentId st \<mapsto> fst (createSession ins st))"
  by (simp add: createSession_def Let_def)

lemma createSession_currentId: "currentId (snd (createSession ins st)) = currentId st + 1"
  by (simp add: createSession_def Let_def)

lemma updateSessionResponse_other:
  "j \<noteq> i \<Longrightarrow> sessions (snd (updateSessionResponse i response st)) j = sessions st j"
  by (simp add: updateSessionResponse_def Let_def split: option.splits)

lemma updateSessionResponse_stored:
  "sessions (snd (updateSessionResponse i response st)) j \<noteq> None \<longleftrightarrow> sessions st j \<noteq> None"
  by (auto simp: updateSessionResponse_def Let_def split: option.splits)

lemma updateSessionResponse_counter:
  "currentId (snd (updateSessionResponse i response st)) = currentId st"
  by (simp add: updateSessionResponse_def Let_def split: option.splits)

lemma ids_below_createSession: "ids_below st \<Longrightarrow> ids_below (snd (createSession ins st))"
  unfolding ids_below_def createSession_sessions createSession_currentId
  by (auto simp: less_Suc_eq)

lemma ids_below_updateSessionResponse:
  "ids_below st \<Longrightarrow> ids_below (snd (updateSessionResponse i response st))"
  unfolding ids_below_def updateSessionResponse_counter
  by (metis updateSessionResponse_stored)

lemma keeps_createSession: "ids_below st \<Longrightarrow> keeps st (snd (createSession ins st))"
  unfolding keeps_def response_of_def createSession_sessions ids_below_def
  by (auto split: option.splits)

lemma keeps_updateSessionResponse:
  "response_of st i = None \<Longrightarrow> keeps st (snd (updateSessionResponse i response st))"
  unfolding keeps_def response_of_def
  by (metis updateSessionResponse_other option.distinct(1))

text \<open>
  The store by itself does not refuse a second write: \<open>updateSessionResponse\<close> called
  twice on a session leaves the second response. That a response is written once comes
  from how the handlers call it.
\<close>

lemma updateSessionResponse_twice:
  assumes "sessions st i \<noteq> None"
  shows "response_of (snd (updateSessionResponse i second
                             (snd (updateSessionResponse i first st)))) i = Some second"
  using assms
  by (auto simp: response_of_def updateSessionResponse_def Let_def)

text \<open>The invariant holds at the start and is preserved by each call the handlers make.\<close>

lemma consistent_new: "consistent MemStorage_new [] Map.empty"
  by (simp add: consistent_def ids_below_def MemStorage_new_def)

lemma consistent_fewer:
  assumes "consistent st cs aw" and "\<And>n a. aw' n = Some a \<Longrightarrow> aw n = Some a"
  shows "consistent st cs aw'"
  using assms unfolding consistent_def by blast

lemma consistent_states:
  assumes "sorted_wrt keeps (states_of cs MemStorage_new)"
    and "\<forall>x \<in> set (states_of cs MemStorage_new). keeps x (final_state cs MemStorage_new)"
    and "keeps (final_state cs MemStorage_new) (apply_call c (final_state cs MemStorage_new))"
  shows "sorted_wrt keeps (states_of (cs @ [c]) MemStorage_new) \<and>
         (\<forall>x \<in> set (states_of (cs @ [c]) MemStorage_new).
            keeps x (apply_call c (final_state cs MemStorage_new)))"
  using assms
  by (auto simp: states_of_append sorted_wrt_append keeps_refl intro: keeps_trans)

lemma consistent_getSession:
  assumes "consistent st cs aw"
  shows "consistent st (cs @ [GetSession_call i]) aw"
proof -
  let ?cs = "cs @ [GetSession_call i]"
  from assms have st: "st = final_state cs MemStorage_new"
    and below: "ids_below st"
    and aw: "\<And>m b. aw m = Some b \<Longrightarrow>
               (\<exists>s. sessions st (id (awaiting_session b)) = Some s \<and> aiResponse s = None) \<and>
               writes (id (awaiting_session b)) cs = 0"
    and apart: "\<And>m m' b b'. aw m = Some b \<Longrightarrow> aw m' = Some b' \<Longrightarrow> m \<noteq> m' \<Longrightarrow>
               id (awaiting_session b) \<noteq> id (awaiting_session b')"
    and once: "\<And>i. writes i cs \<le> 1"
    and none: "\<And>i. currentId st \<le> i \<Longrightarrow> writes i cs = 0"
    and sorted: "sorted_wrt keeps (states_of cs MemStorage_new)"
    and kept: "\<forall>x \<in> set (states_of cs MemStorage_new). keeps x (final_state cs MemStorage_new)"
    unfolding consistent_def by auto
  have 1: "st = final_state ?cs MemStorage_new"
    by (simp add: final_state_append st)
  have 3: "(\<exists>s. sessions st (id (awaiting_session b)) = Some s \<and> aiResponse s = None) \<and>
           writes (id (awaiting_session b)) ?cs = 0"
    if "aw m = Some b" for m b
    using aw [OF that] by (simp add: writes_append)
  have 5: "writes k ?cs \<le> 1" for k
    using once [of k] by (simp add: writes_append)
  have 6: "writes k ?cs = 0" if "currentId st \<le> k" for k
    using none [OF that] by (simp add: writes_append)
  have "keeps (final_state cs MemStorage_new)
          (apply_call (GetSession_call i) (final_state cs MemStorage_new))"
    by (simp add: keeps_refl)
  from consistent_states [OF sorted kept this]
  have 7: "sorted_wrt keeps (states_of ?cs MemStorage_new)"
    and 8: "\<forall>x \<in> set (states_of ?cs MemStorage_new). keeps x st"
    by (simp_all add: st)
  show ?thesis
    unfolding consistent_def
    using 1 below 3 apart 5 6 7 8 by blast
qed

lemma consistent_createSession:
  assumes "consistent st cs aw" and "awaiting_session a = fst (createSession ins st)"
  shows "consistent (snd (createSession ins st)) (cs @ [CreateSession_call ins]) (aw(n \<mapsto> a))"
proof -
  let ?st = "snd (createSession ins st)" and ?cs = "cs @ [CreateSession_call ins]"
  from assms(1) have st: "st = final_state cs MemStorage_new"
    and below: "ids_below st"
    and aw: "\<And>m b. aw m = Some b \<Longrightarrow>
               (\<exists>s. sessions st (id (awaiting_session b)) = Some s \<and> aiResponse s = None) \<and>
               writes (id (awaiting_session b)) cs = 0"
    and apart: "\<And>m m' b b'. aw m = Some b \<Longrightarrow> aw m' = Some b' \<Longrightarrow> m \<noteq> m' \<Longrightarrow>
               id (awaiting_session b) \<noteq> id (awaiting_session b')"
    and once: "\<And>i. writes i cs \<le> 1"
    and none: "\<And>i. currentId st \<le> i \<Longrightarrow> writes i cs = 0"
    and sorted: "sorted_wrt keeps (states_of cs MemStorage_new)"
    and kept: "\<forall>x \<in> set (states_of cs MemStorage_new). keeps x (final_state cs MemStorage_new)"
    unfolding consistent_def by auto
  have ida: "id (awaiting_session a) = currentId st"
    by (simp add: assms(2) createSession_id)
  have old: "id (awaiting_session b) < currentId st" if "aw m = Some b" for m b
    using aw [OF that] below by (auto simp: ids_below_def)
  have 1: "?st = final_state ?cs MemStorage_new"
    by (simp add: final_state_append st)
  have 2: "ids_below ?st"
    using below by (rule ids_below_createSession)
  have 3: "(\<exists>s. sessions ?st (id (awaiting_session b)) = Some s \<and> aiResponse s = None) \<and>
           writes (id (awaiting_session b)) ?cs = 0"
    if "(aw(n \<mapsto> a)) m = Some b" for m b
  proof (cases "b = a \<and> m = n")
    case True
    then show ?thesis
      by (simp add: createSession_id createSession_sessions writes_append none
          assms(2) createSession_aiResponse)
  next
    case False
    with that have b: "aw m = Some b" by (auto split: if_splits)
    from old [OF b] aw [OF b] show ?thesis
      by (simp add: createSession_sessions writes_append)
  qed
  have 4: "id (awaiting_session b) \<noteq> id (awaiting_session b')"
    if "(aw(n \<mapsto> a)) m = Some b" "(aw(n \<mapsto> a)) m' = Some b'" "m \<noteq> m'" for m m' b b'
  proof (cases "m = n")
    case True
    with that have "b = a" "aw m' = Some b'" by auto
    with old [of m' b'] ida show ?thesis by simp
  next
    case mn: False
    show ?thesis
    proof (cases "m' = n")
      case True
      with that mn have "b' = a" "aw m = Some b" by auto
      with old [of m b] ida show ?thesis by simp
    next
      case False
      with mn that apart [of m b m' b'] show ?thesis by simp
    qed
  qed
  have 5: "writes i ?cs \<le> 1" for i
    using once [of i] by (simp add: writes_append)
  have 6: "writes i ?cs = 0" if "currentId ?st \<le> i" for i
    using that none [of i] by (simp add: writes_append createSession_currentId)
  have "keeps (final_state cs MemStorage_new)
          (apply_call (CreateSession_call ins) (final_state cs MemStorage_new))"
    using keeps_createSession [OF below, of ins] by (simp add: st)
  from consistent_states [OF sorted kept this]
  have 7: "sorted_wrt keeps (states_of ?cs MemStorage_new)"
    and 8: "\<forall>x \<in> set (states_of ?cs MemStorage_new). keeps x ?st"
    by (simp_all add: st)
  show ?thesis
    unfolding consistent_def
    using 1 2 3 4 5 6 7 8 by blast
qed

lemma consistent_updateSessionResponse:
  assumes "consistent st cs aw" and "aw n = Some a"
  shows "consistent (snd (updateSessionResponse (id (awaiting_session a)) response st))
           (cs @ [UpdateSessionResponse_call (id (awaiting_session a)) response])
           (aw(n := None))"
proof -
  let ?i = "id (awaiting_session a)"
  let ?st = "snd (updateSessionResponse ?i response st)"
  let ?cs = "cs @ [UpdateSessionResponse_call ?i response]"
  from assms(1) have st: "st = final_state cs MemStorage_new"
    and below: "ids_below st"
    and aw: "\<And>m b. aw m = Some b \<Longrightarrow>
               (\<exists>s. sessions st (id (awaiting_session b)) = Some s \<and> aiResponse s = None) \<and>
               writes (id (awaiting_session b)) cs = 0"
    and apart: "\<And>m m' b b'. aw m = Some b \<Longrightarrow> aw m' = Some b' \<Longrightarrow> m \<noteq> m' \<Longrightarrow>
               id (awaiting_session b) \<noteq> id (awaiting_session b')"
    and once: "\<And>i. writes i cs \<le> 1"
    and none: "\<And>i. currentId st \<le> i \<Longrightarrow> writes i cs = 0"
    and sorted: "sorted_wrt keeps (states_of cs MemStorage_new)"
    and kept: "\<forall>x \<in> set (states_of cs MemStorage_new). keeps x (final_state cs MemStorage_new)"
    unfolding consistent_def by auto
  from aw [OF assms(2)] obtain s where s: "sessions st ?i = Some s" "aiResponse s = None"
    and unwritten: "writes ?i cs = 0" by blast
  from s below have stored: "?i < currentId st" by (auto simp: ids_below_def)
  have 1: "?st = final_state ?cs MemStorage_new"
    by (simp add: final_state_append st)
  have 2: "ids_below ?st"
    using below by (rule ids_below_updateSessionResponse)
  have 3: "(\<exists>s. sessions ?st (id (awaiting_session b)) = Some s \<and> aiResponse s = None) \<and>
           writes (id (awaiting_session b)) ?cs = 0"
    if "(aw(n := None)) m = Some b" for m b
  proof -
    from that have b: "aw m = Some b" and "m \<noteq> n" by (auto split: if_splits)
    with apart [OF b assms(2)] have "id (awaiting_session b) \<noteq> ?i" by simp
    with aw [OF b] show ?thesis
      by (simp add: updateSessionResponse_other writes_append)
  qed
  have 4: "id (awaiting_session b) \<noteq> id (awaiting_session b')"
    if "(aw(n := None)) m = Some b" "(aw(n := None)) m' = Some b'" "m \<noteq> m'" for m m' b b'
    using that apart [of m b m' b'] by (auto split: if_splits)
  have 5: "writes i ?cs \<le> 1" for i
    using once [of i] unwritten by (cases "i = ?i") (simp_all add: writes_append)
  have 6: "writes i ?cs = 0" if "currentId ?st \<le> i" for i
    using that none [of i] stored
    by (simp add: writes_append updateSessionResponse_counter)
  have "response_of st ?i = None"
    using s by (simp add: response_of_def)
  then have "keeps (final_state cs MemStorage_new)
          (apply_call (UpdateSessionResponse_call ?i response) (final_state cs MemStorage_new))"
    using keeps_updateSessionResponse [of st ?i response] by (simp add: st)
  from consistent_states [OF sorted kept this]
  have 7: "sorted_wrt keeps (states_of ?cs MemStorage_new)"
    and 8: "\<forall>x \<in> set (states_of ?cs MemStorage_new). keeps x ?st"
    by (simp_all add: st)
  show ?thesis
    unfolding consistent_def
    using 1 2 3 4 5 6 7 8 by blast
qed


text \<open>So it is preserved by everything that happens to the server.\<close>

lemma consistent_react:
  assumes "consistent_server sv"
  shows "consistent_server (react e sv)"
proof (cases e)
  case (Arrives env data)
  let ?ins = "InsertSession.truncate data"
  from assms have inv: "consistent (contents (srv_storage sv)) (calls_made (srv_storage sv))
                          (srv_awaiting sv)"
    by (simp add: consistent_server_def)
  from begin_submission_cases [of env data "srv_storage sv"]
  show ?thesis
  proof (elim disjE exE conjE)
    fix response
    assume "begin_submission env data (srv_storage sv) = (Inl response, srv_storage sv)"
    with inv Arrives show ?thesis by (simp add: consistent_server_def)
  next
    fix a
    assume b: "begin_submission env data (srv_storage sv)
                 = (Inr a, snd (storage_createSession ?ins (srv_storage sv)))"
      and a: "awaiting_session a = fst (storage_createSession ?ins (srv_storage sv))"
    from a have "awaiting_session a = fst (createSession ?ins (contents (srv_storage sv)))"
      by (simp add: storage_createSession_def split: prod.splits)
    from consistent_createSession [OF inv this, of "srv_arrived sv"]
    show ?thesis
      using Arrives b
      by (simp add: consistent_server_def storage_createSession_def split: prod.splits)
  qed
next
  case (Resumes n)
  from assms have inv: "consistent (contents (srv_storage sv)) (calls_made (srv_storage sv))
                          (srv_awaiting sv)"
    by (simp add: consistent_server_def)
  show ?thesis
  proof (cases "srv_awaiting sv n")
    case None
    with assms Resumes show ?thesis by simp
  next
    case (Some a)
    from finish_submission_state [of a "srv_storage sv"]
    show ?thesis
    proof
      assume same: "snd (finish_submission a (srv_storage sv)) = srv_storage sv"
      have "consistent (contents (srv_storage sv)) (calls_made (srv_storage sv))
              ((srv_awaiting sv)(n := None))"
        using inv by (rule consistent_fewer) (simp split: if_splits)
      with Resumes Some same show ?thesis
        by (cases "finish_submission a (srv_storage sv)") (simp add: consistent_server_def)
    next
      assume "\<exists>response. snd (finish_submission a (srv_storage sv))
                = snd (storage_updateSessionResponse (id (awaiting_session a)) response
                         (srv_storage sv))"
      then obtain response where upd: "snd (finish_submission a (srv_storage sv))
                = snd (storage_updateSessionResponse (id (awaiting_session a)) response
                         (srv_storage sv))"
        by blast
      from consistent_updateSessionResponse [OF inv Some, of response]
      show ?thesis
        using Resumes Some upd
        by (cases "finish_submission a (srv_storage sv)")
           (simp add: consistent_server_def storage_updateSessionResponse_def
              split: prod.splits)
    qed
  qed
next
  case (Fetches i)
  from assms have inv: "consistent (contents (srv_storage sv)) (calls_made (srv_storage sv))
                          (srv_awaiting sv)"
    by (simp add: consistent_server_def)
  from consistent_getSession [OF inv, of i]
  show ?thesis
    using Fetches
    by (simp add: consistent_server_def get_session_def storage_getSession_def
        split: option.splits)
next
  case (Other_route response)
  with assms show ?thesis by (simp add: consistent_server_def)
qed

lemma consistent_run: "consistent_server sv \<Longrightarrow> consistent_server (run events sv)"
  by (induction events arbitrary: sv) (simp_all add: consistent_react)

lemma consistent_Server_new: "consistent_server Server_new"
  by (simp add: consistent_server_def Server_new_def Storage_new_def consistent_new)

text \<open>
  A handler that nothing interrupts is the arrival of the submission followed at once by
  the end of its analysis.
\<close>

lemma post_sessions_run:
  assumes "srv_awaiting sv (srv_arrived sv) = None"
  shows "srv_storage (run [Arrives env data, Resumes (srv_arrived sv)] sv)
           = snd (post_sessions env data (srv_storage sv))"
  using assms
  by (simp add: post_sessions_def split: prod.splits sum.splits)

text \<open>
  C6. Take any sequence of arrivals of submissions, ends of analyses, fetches and other
  requests, in any order and with any surroundings, from a server with an empty store.
  The calls that the handlers have made on the store, replayed on an empty store, give
  the store of the server; among them there is at most one \<open>updateSessionResponse\<close> of
  any one session; and once the \<open>aiResponse\<close> of a session has a value after one of the
  calls, it has that same value after every later call and in the store of the server.
\<close>

theorem aiResponse_written_at_most_once:
  "contents (srv_storage (run events Server_new))
     = final_state (calls_made (srv_storage (run events Server_new))) MemStorage_new \<and>
   writes k (calls_made (srv_storage (run events Server_new))) \<le> 1 \<and>
   (i \<le> j \<and> j < length (calls_made (srv_storage (run events Server_new))) \<and>
    response_of
      (states_of (calls_made (srv_storage (run events Server_new))) MemStorage_new ! i) k
      = Some v \<longrightarrow>
    response_of
      (states_of (calls_made (srv_storage (run events Server_new))) MemStorage_new ! j) k
      = Some v \<and>
    response_of (contents (srv_storage (run events Server_new))) k = Some v)"
proof -
  let ?s = "srv_storage (run events Server_new)"
  let ?states = "states_of (calls_made ?s) MemStorage_new"
  have "consistent_server (run events Server_new)"
    using consistent_Server_new by (rule consistent_run)
  then have inv: "consistent (contents ?s) (calls_made ?s) (srv_awaiting (run events Server_new))"
    by (simp add: consistent_server_def)
  from inv have replay: "contents ?s = final_state (calls_made ?s) MemStorage_new"
    and once: "writes k (calls_made ?s) \<le> 1"
    and sorted: "sorted_wrt keeps ?states"
    and kept: "\<forall>x \<in> set ?states. keeps x (contents ?s)"
    unfolding consistent_def by auto
  have later: "response_of (?states ! j) k = Some v \<and> response_of (contents ?s) k = Some v"
    if "i \<le> j" "j < length (calls_made ?s)" "response_of (?states ! i) k = Some v"
  proof -
    from that have len: "i < length ?states" "j < length ?states"
      by (simp_all add: length_states_of)
    have "keeps (?states ! i) (?states ! j)"
    proof (cases "i = j")
      case True
      then show ?thesis by (simp add: keeps_refl)
    next
      case False
      with that(1) have "i < j" by simp
      with sorted len show ?thesis by (simp add: sorted_wrt_nth_less)
    qed
    moreover from kept len have "keeps (?states ! i) (contents ?s)" by simp
    ultimately show ?thesis using that(3) by (simp add: keeps_def)
  qed
  from replay once later show ?thesis by blast
qed

theorem aiResponse_written_at_most_once_witness:
  \<open>calls_made (srv_storage (run sample_events Server_new))
     = [CreateSession_call (InsertSession.truncate sample_body),
        CreateSession_call (InsertSession.truncate sample_body),
        UpdateSessionResponse_call 2 ''{"verdict":"Pizza","timestamp":"2025-01-01T00:00:00.000Z"}'',
        GetSession_call (Some 2),
        UpdateSessionResponse_call 1 ''{"verdict":"Thai","timestamp":"2025-01-01T00:00:00.000Z"}''] \<and>
   response_of
     (states_of (calls_made (srv_storage (run sample_events Server_new))) MemStorage_new ! 1) 2
     = None \<and>
   response_of
     (states_of (calls_made (srv_storage (run sample_events Server_new))) MemStorage_new ! 2) 2
     = Some ''{"verdict":"Pizza","timestamp":"2025-01-01T00:00:00.000Z"}'' \<and>
   response_of
     (states_of (calls_made (srv_storage (run sample_events Server_new))) MemStorage_new ! 4) 2
     = Some ''{"verdict":"Pizza","timestamp":"2025-01-01T00:00:00.000Z"}'' \<and>
   response_of (contents (srv_storage (run sample_events Server_new))) 2
     = Some ''{"verdict":"Pizza","timestamp":"2025-01-01T00:00:00.000Z"}'' \<and>
   writes 2 (calls_made (srv_storage (run sample_events Server_new))) \<le> 1\<close>
proof -
  let ?r = \<open>''{"verdict":"Pizza","timestamp":"2025-01-01T00:00:00.000Z"}''\<close>
  let ?cs = "calls_made (srv_storage (run sample_events Server_new))"
  have calls: \<open>?cs
     = [CreateSession_call (InsertSession.truncate sample_body),
        CreateSession_call (InsertSession.truncate sample_body),
        UpdateSessionResponse_call 2 ''{"verdict":"Pizza","timestamp":"2025-01-01T00:00:00.000Z"}'',
        GetSession_call (Some 2),
        UpdateSessionResponse_call 1 ''{"verdict":"Thai","timestamp":"2025-01-01T00:00:00.000Z"}'']\<close>
    by (simp add: sample_events_def Server_new_def Storage_new_def MemStorage_new_def
        sample_server_def sample_body_def begin_submission_def finish_submission_def truthy_def
        storage_createSession_def createSession_def Let_def InsertSession.truncate_def
        createAnalysisStream_from_def fixed_env_def read_textStream_def store_response_def
        storage_updateSessionResponse_def updateSessionResponse_def JSON_stringify_def
        JSON_quote_def JSON_escape_def get_session_def storage_getSession_def getSession_def)
  have before: "response_of (states_of ?cs MemStorage_new ! 1) 2 = None"
    unfolding calls
    by (simp add: response_of_def MemStorage_new_def createSession_def Let_def)
  have after: "response_of (states_of ?cs MemStorage_new ! 2) 2 = Some ?r"
    unfolding calls
    by (simp add: response_of_def MemStorage_new_def createSession_def
        updateSessionResponse_def Let_def)
  have len: "(2::nat) \<le> 4 \<and> 4 < length ?cs"
    unfolding calls by simp
  from aiResponse_written_at_most_once [of sample_events 2 2 4 ?r] len after
  have "response_of (states_of ?cs MemStorage_new ! 4) 2 = Some ?r \<and>
        response_of (contents (srv_storage (run sample_events Server_new))) 2 = Some ?r \<and>
        writes 2 ?cs \<le> 1"
    by blast
  with calls before after show ?thesis by blast
qed



end
